theory Spec2Isabelle
  imports Main "HOL-Library.AList"
begin

section \<open>The published-object resolver (ecms/managers.py)\<close>

text \<open>
  A \<open>CmsObject\<close> row as the manager reads it: its primary key, its status, the
  navigation flag, the parent's key (\<open>None\<close> for a toplevel row) and the cached
  URL. \<open>is_current\<close> is the attribute that \<open>_mark_current\<close> sets on the Python
  object; it is not a column, and \<open>None\<close> stands for "attribute not set".
\<close>

datatype status = PUBLISHED | DRAFT | HIDDEN

record cms_object =
  cms_id :: int
  status :: status
  in_navigation :: bool
  parent :: "int option"
  cached_url :: string
  is_current :: "bool option"

datatype cms_error =
    DoesNotExist
  | MultipleObjectsReturned
  | Http404 string

text \<open>\<open>str.strip(chars)\<close> for a single character: drop it from both ends.\<close>

definition py_strip :: "char \<Rightarrow> string \<Rightarrow> string" where
  "py_strip c s = rev (dropWhile (\<lambda>x. x = c) (rev (dropWhile (\<lambda>x. x = c) s)))"

text \<open>
  \<open>QuerySet.get\<close> on the rows a query selects: the row when there is exactly one,
  \<open>DoesNotExist\<close> when there is none, \<open>MultipleObjectsReturned\<close> otherwise.
\<close>

fun qs_get :: "cms_object list \<Rightarrow> cms_error + cms_object" where
  "qs_get [] = Inl DoesNotExist"
| "qs_get [r] = Inr r"
| "qs_get (r # r' # rs) = Inl MultipleObjectsReturned"

text \<open>The query set is the list of rows of the table, passed explicitly.\<close>

definition published :: "cms_object list \<Rightarrow> cms_object list" where
  "published db = filter (\<lambda>r. status r = PUBLISHED) db"

definition in_navigation_qs :: "cms_object list \<Rightarrow> cms_object list" where
  "in_navigation_qs db = filter (\<lambda>r. in_navigation r = True) (published db)"

definition get_for_path :: "cms_object list \<Rightarrow> string \<Rightarrow> cms_error + cms_object" where
  "get_for_path db path =
     (let stripped = py_strip CHR ''/'' path;
          stripped = (if stripped \<noteq> [] then ''/'' @ stripped @ ''/'' else ''/'')
      in qs_get (filter (\<lambda>r. cached_url r = stripped) (published db)))"

definition get_for_path_or_404 :: "cms_object list \<Rightarrow> string \<Rightarrow> cms_error + cms_object" where
  "get_for_path_or_404 db path =
     (case get_for_path db path of
        Inl DoesNotExist \<Rightarrow>
          Inl (Http404 (''No published CmsObject found for the path: '' @ [CHR 0x27] @ path @ [CHR 0x27]))
      | Inl e \<Rightarrow> Inl e
      | Inr r \<Rightarrow> Inr r)"

text \<open>
  \<open>_mark_current\<close>: \<open>qs.decorate(add_prop)\<close> runs \<open>add_prop\<close> on every object the
  query set yields; \<open>add_prop\<close> sets the attribute on the object in memory and saves
  nothing.
\<close>

definition add_prop :: "int \<Rightarrow> cms_object \<Rightarrow> cms_object" where
  "add_prop current_id obj = obj\<lparr>is_current := Some (cms_id obj = current_id)\<rparr>"

definition mark_current :: "cms_object list \<Rightarrow> cms_object \<Rightarrow> cms_object list" where
  "mark_current qs current_page = (let current_id = cms_id current_page in map (add_prop current_id) qs)"

text \<open>
  \<open>current_page\<close> defaults to \<open>None\<close>; a model instance is always true in
  \<open>if current_page:\<close>.
\<close>

definition toplevel_navigation :: "cms_object list \<Rightarrow> cms_object option \<Rightarrow> cms_object list" where
  "toplevel_navigation db current_page =
     (let items = filter (\<lambda>r. parent r = None) (in_navigation_qs db)
      in case current_page of
           None \<Rightarrow> items
         | Some cur \<Rightarrow> mark_current items cur)"

text \<open>
  The normalisation in the words of the specification: strip the separators at both
  ends, then wrap; the empty remainder becomes the root separator.
\<close>

definition normalize :: "string \<Rightarrow> string" where
  "normalize p = (let s = py_strip CHR ''/'' p in if s = [] then ''/'' else ''/'' @ s @ ''/'')"

section \<open>Page type plugins and the plugin pool (fluent_pages/extensions.py)\<close>

datatype exn =
    AssertionError string
  | PageTypeAlreadyRegistered string
  | PageTypeNotFound string
  | ImportError string
  | ImproperlyConfigured string
  | AdminAlreadyRegistered string
  | KeyError string

text \<open>
  A model class: its \<open>__name__\<close> and the names of the classes it derives from (itself
  included), which is all that \<open>issubclass\<close> reads. Classes are dictionary keys by
  identity; here a class is identified by this description.
\<close>

record model_class =
  model_name :: string
  model_bases :: "string list"

definition issubclass :: "string list \<Rightarrow> string \<Rightarrow> bool" where
  "issubclass bases c = (c \<in> set bases)"

text \<open>The fields of a page that the plugins of this repository read.\<close>

record page =
  page_id :: int
  parent_site :: string
  layout_template_path :: string
  content_type :: string
  content :: string

datatype py_value = PageObj page | SiteObj string | StrObj string

type_synonym request = string
type_synonym kwargs = "string \<rightharpoonup> py_value"

datatype response =
    ClassResponse string request string "string \<rightharpoonup> py_value"
  | HttpResponse string string

text \<open>
  A plugin class: its name, its ancestors, the class attributes of \<open>PageTypePlugin\<close>
  and the methods a subclass may override (\<open>None\<close>: inherited from the base class).
  A plugin instance carries no state of its own, so the instance made by \<open>plugin()\<close>
  is represented by its class.
\<close>

record plugin_class =
  cls_name :: string
  cls_bases :: "string list"
  model :: "model_class option"
  model_admin :: string
  render_template :: "string option"
  response_class :: string
  get_render_template_ov :: "(request \<Rightarrow> page \<Rightarrow> kwargs \<Rightarrow> string option) option"
  get_context_ov :: "(request \<Rightarrow> page \<Rightarrow> kwargs \<Rightarrow> (string \<rightharpoonup> py_value)) option"
  get_response_ov :: "(request \<Rightarrow> page \<Rightarrow> kwargs \<Rightarrow> exn + response) option"

definition PageTypePlugin :: plugin_class where
  "PageTypePlugin =
     \<lparr>cls_name = ''PageTypePlugin'', cls_bases = [''PageTypePlugin'', ''object''],
      model = None, model_admin = ''UrlNodeAdmin'', render_template = None,
      response_class = ''TemplateResponse'',
      get_render_template_ov = None, get_context_ov = None, get_response_ov = None\<rparr>"

definition get_render_template :: "plugin_class \<Rightarrow> request \<Rightarrow> page \<Rightarrow> kwargs \<Rightarrow> string option" where
  "get_render_template self request pg kw =
     (case get_render_template_ov self of
        None \<Rightarrow> render_template self
      | Some f \<Rightarrow> f request pg kw)"

definition get_context :: "plugin_class \<Rightarrow> request \<Rightarrow> page \<Rightarrow> kwargs \<Rightarrow> (string \<rightharpoonup> py_value)" where
  "get_context self request pg kw =
     (case get_context_ov self of
        None \<Rightarrow> [''page'' \<mapsto> PageObj pg, ''site'' \<mapsto> SiteObj (parent_site pg)]
      | Some f \<Rightarrow> f request pg kw)"

text \<open>
  \<open>PageTypePlugin.get_response\<close>, the method of the base class. \<open>not render_template\<close>
  holds for \<open>None\<close> and for the empty string.
\<close>

definition configuration_message :: "string \<Rightarrow> string" where
  "configuration_message cls =
     cls @ '' should either provide a definition of '' @ [CHR 0x27] @ ''render_template'' @ [CHR 0x27]
         @ '' or an implementation of '' @ [CHR 0x27] @ ''get_response()'' @ [CHR 0x27]"

definition base_get_response :: "plugin_class \<Rightarrow> request \<Rightarrow> page \<Rightarrow> kwargs \<Rightarrow> exn + response" where
  "base_get_response self request pg kw =
     (case get_render_template self request pg kw of
        None \<Rightarrow> Inl (ImproperlyConfigured (configuration_message (cls_name self)))
      | Some t \<Rightarrow>
          if t = [] then Inl (ImproperlyConfigured (configuration_message (cls_name self)))
          else let context = get_context self request pg kw
               in Inr (ClassResponse (response_class self) request t context))"

definition get_response :: "plugin_class \<Rightarrow> request \<Rightarrow> page \<Rightarrow> kwargs \<Rightarrow> exn + response" where
  "get_response self request pg kw =
     (case get_response_ov self of
        None \<Rightarrow> base_get_response self request pg kw
      | Some f \<Rightarrow> f request pg kw)"

subsection \<open>The two plugins of the repository\<close>

text \<open>
  The model classes \<open>FluentPage\<close> and \<open>TextFile\<close> and the constant
  \<open>TextFile.UTF8_TYPES\<close> are defined outside these sources: the models are taken
  as the \<open>UrlNode\<close> subclasses that registration demands, the constant is a parameter.
\<close>

definition FluentPage :: model_class where
  "FluentPage = \<lparr>model_name = ''FluentPage'', model_bases = [''FluentPage'', ''UrlNode'']\<rparr>"

definition TextFile :: model_class where
  "TextFile = \<lparr>model_name = ''TextFile'', model_bases = [''TextFile'', ''UrlNode'']\<rparr>"

definition FluentPagePlugin :: plugin_class where
  "FluentPagePlugin =
     PageTypePlugin\<lparr>cls_name := ''FluentPagePlugin'',
       cls_bases := ''FluentPagePlugin'' # cls_bases PageTypePlugin,
       model := Some FluentPage, model_admin := ''FluentPageAdmin'',
       get_render_template_ov := Some (\<lambda>request fluentpage kw. Some (layout_template_path fluentpage))\<rparr>"

definition TextFilePlugin :: "string list \<Rightarrow> plugin_class" where
  "TextFilePlugin UTF8_TYPES =
     PageTypePlugin\<lparr>cls_name := ''TextFilePlugin'',
       cls_bases := ''TextFilePlugin'' # cls_bases PageTypePlugin,
       model := Some TextFile,
       get_response_ov := Some (\<lambda>request textfile kw.
         let ct = content_type textfile;
             ct = (if ct \<in> set UTF8_TYPES then ct @ ''; charset=utf-8'' else ct)
         in Inr (HttpResponse (content textfile) ct))\<rparr>"

subsection \<open>The pool\<close>

text \<open>
  \<open>plugins\<close> is the dictionary from names to instances, kept as an association list
  because \<open>values()\<close> enumerates it; \<open>admin_site\<close> is the \<open>_registry\<close> of the pool's own
  \<open>AdminSite\<close>, whose entries are the admin instances \<open>admin_class(model, site)\<close>.
\<close>

record page_type_pool =
  plugins :: "(string \<times> plugin_class) list"
  plugin_for_model :: "model_class \<rightharpoonup> string"
  detected :: bool
  admin_site :: "model_class \<rightharpoonup> string \<times> model_class"

definition PageTypePool_init :: page_type_pool where
  "PageTypePool_init =
     \<lparr>plugins = [], plugin_for_model = Map.empty, detected = False, admin_site = Map.empty\<rparr>"

text \<open>
  \<open>AdminSite.register\<close> belongs to the framework: it refuses a model that its registry
  already holds and stores an instance of the admin class otherwise.
\<close>

definition admin_site_register ::
  "(model_class \<rightharpoonup> string \<times> model_class) \<Rightarrow> model_class \<Rightarrow> string
     \<Rightarrow> exn + (model_class \<rightharpoonup> string \<times> model_class)" where
  "admin_site_register registry m admin_class =
     (if registry m \<noteq> None
      then Inl (AdminAlreadyRegistered (''The model '' @ model_name m @ '' is already registered''))
      else Inr (registry(m \<mapsto> (admin_class, m))))"

text \<open>
  \<open>register\<close> returns the exception it raised, if any, and the pool as the call left it.
\<close>

definition register :: "page_type_pool \<Rightarrow> plugin_class \<Rightarrow> exn option \<times> page_type_pool" where
  "register self plugin =
     (if \<not> issubclass (cls_bases plugin) ''PageTypePlugin''
      then (Some (AssertionError ''The plugin must inherit from `PageTypePlugin`''), self)
      else case model plugin of
        None \<Rightarrow> (Some (AssertionError ''The plugin has no model defined''), self)
      | Some m \<Rightarrow>
          if \<not> issubclass (model_bases m) ''UrlNode''
          then (Some (AssertionError ''The plugin model must inherit from `ContentItem`''), self)
          else let name = cls_name plugin in
            if map_of (plugins self) name \<noteq> None
            then (Some (PageTypeAlreadyRegistered
                          (''['' @ name @ ''] a plugin with this name is already registered'')), self)
            else let plugin_instance = plugin;
                     self = self\<lparr>plugins := AList.update name plugin_instance (plugins self)\<rparr>;
                     self = self\<lparr>plugin_for_model := (plugin_for_model self)(m \<mapsto> name)\<rparr>
                 in case admin_site_register (admin_site self) m (model_admin plugin) of
                      Inl e \<Rightarrow> (Some e, self)
                    | Inr registry \<Rightarrow> (None, self\<lparr>admin_site := registry\<rparr>))"

subsection \<open>Discovery\<close>

text \<open>
  What importing a \<open>page_type_plugins\<close> module does, as the two modules of the
  repository do it: import statements, which may fail with an \<open>ImportError\<close>, and calls
  of \<open>page_type_pool.register\<close>. An application is its name and the submodules it has.
\<close>

datatype stmt = Register plugin_class | FailingImport string

record app =
  app_name :: string
  submodules :: "(string \<times> stmt list) list"

text \<open>
  The interpreter state the pool's methods run in: the setting \<open>INSTALLED_APPS\<close>, the
  modules already loaded (\<open>sys.modules\<close>), the global pool, and a log of the calls of
  \<open>import_module\<close>, kept to observe the scans.
\<close>

record world =
  installed_apps :: "app list"
  sys_modules :: "string list"
  import_calls :: "string list"
  pool :: page_type_pool

fun exec_module :: "stmt list \<Rightarrow> page_type_pool \<Rightarrow> exn option \<times> page_type_pool" where
  "exec_module [] p = (None, p)"
| "exec_module (Register c # ss) p =
     (case register p c of
        (Some e, p') \<Rightarrow> (Some e, p')
      | (None, p') \<Rightarrow> exec_module ss p')"
| "exec_module (FailingImport msg # ss) p = (Some (ImportError msg), p)"

text \<open>
  \<open>import_module(name, package)\<close> for a relative \<open>name\<close>: a loaded module is not run
  again; a missing one raises \<open>ImportError\<close> with the interpreter's message; a module
  whose body raises is not kept in \<open>sys.modules\<close>, but what it did to the pool stays.
\<close>

definition import_module :: "string \<Rightarrow> app \<Rightarrow> world \<Rightarrow> exn option \<times> world" where
  "import_module name a w =
     (let full = app_name a @ name;
          w = w\<lparr>import_calls := import_calls w @ [full]\<rparr>
      in if full \<in> set (sys_modules w) then (None, w)
         else case map_of (submodules a) (tl name) of
           None \<Rightarrow> (Some (ImportError (''No module named '' @ tl name)), w)
         | Some body \<Rightarrow>
             (case exec_module body (pool w) of
                (None, p) \<Rightarrow> (None, w\<lparr>pool := p, sys_modules := sys_modules w @ [full]\<rparr>)
              | (Some e, p) \<Rightarrow> (Some e, w\<lparr>pool := p\<rparr>)))"

text \<open>\<open>s in t\<close> on strings.\<close>

fun starts_with :: "string \<Rightarrow> string \<Rightarrow> bool" where
  "starts_with [] t = True"
| "starts_with (c # cs) [] = False"
| "starts_with (c # cs) (d # ds) = (c = d \<and> starts_with cs ds)"

fun py_in :: "string \<Rightarrow> string \<Rightarrow> bool" where
  "py_in s [] = (s = [])"
| "py_in s (d # ds) = (starts_with s (d # ds) \<or> py_in s ds)"

fun import_apps_submodule :: "string \<Rightarrow> app list \<Rightarrow> world \<Rightarrow> exn option \<times> world" where
  "import_apps_submodule submodule [] w = (None, w)"
| "import_apps_submodule submodule (a # apps) w =
     (case import_module (''.'' @ submodule) a w of
        (None, w') \<Rightarrow> import_apps_submodule submodule apps w'
      | (Some (ImportError msg), w') \<Rightarrow>
          if \<not> py_in submodule msg then (Some (ImportError msg), w')
          else import_apps_submodule submodule apps w'
      | (Some e, w') \<Rightarrow> (Some e, w'))"

definition import_plugins :: "world \<Rightarrow> exn option \<times> world" where
  "import_plugins w =
     (if detected (pool w) then (None, w)
      else case import_apps_submodule ''page_type_plugins'' (installed_apps w) w of
        (Some e, w') \<Rightarrow> (Some e, w')
      | (None, w') \<Rightarrow> (None, w'\<lparr>pool := (pool w')\<lparr>detected := True\<rparr>\<rparr>))"

definition get_plugins :: "world \<Rightarrow> (exn + plugin_class list) \<times> world" where
  "get_plugins w =
     (case import_plugins w of
        (Some e, w') \<Rightarrow> (Inl e, w')
      | (None, w') \<Rightarrow> (Inr (map snd (plugins (pool w'))), w'))"

definition get_model_classes :: "world \<Rightarrow> (exn + model_class option list) \<times> world" where
  "get_model_classes w =
     (case import_plugins w of
        (Some e, w') \<Rightarrow> (Inl e, w')
      | (None, w') \<Rightarrow> (Inr (map (\<lambda>plugin. model plugin) (map snd (plugins (pool w')))), w'))"

definition get_plugin_by_model :: "world \<Rightarrow> model_class \<Rightarrow> (exn + plugin_class) \<times> world" where
  "get_plugin_by_model w mc =
     (case import_plugins w of
        (Some e, w') \<Rightarrow> (Inl e, w')
      | (None, w') \<Rightarrow>
          if \<not> issubclass (model_bases mc) ''UrlNode'' then (Inl (AssertionError []), w')
          else case plugin_for_model (pool w') mc of
            None \<Rightarrow>
              (Inl (PageTypeNotFound
                 (''No plugin found for model '' @ [CHR 0x27] @ model_name mc @ [CHR 0x27] @ ''.'')), w')
          | Some name \<Rightarrow>
              (case map_of (plugins (pool w')) name of
                 None \<Rightarrow> (Inl (KeyError name), w')
               | Some inst \<Rightarrow> (Inr inst, w')))"

definition get_model_admin :: "world \<Rightarrow> model_class \<Rightarrow> (exn + string \<times> model_class) \<times> world" where
  "get_model_admin w mc =
     (case import_plugins w of
        (Some e, w') \<Rightarrow> (Inl e, w')
      | (None, w') \<Rightarrow>
          if \<not> issubclass (model_bases mc) ''UrlNode'' then (Inl (AssertionError []), w')
          else case admin_site (pool w') mc of
            None \<Rightarrow>
              (Inl (PageTypeNotFound
                 (''No ModelAdmin found for model '' @ [CHR 0x27] @ model_name mc @ [CHR 0x27] @ ''.'')), w')
          | Some a \<Rightarrow> (Inr a, w'))"

text \<open>Sequences of calls: of the four accessors, and of \<open>register\<close>.\<close>

datatype call = GetPlugins | GetModelClasses | GetPluginByModel model_class | GetModelAdmin model_class

fun run_call :: "world \<Rightarrow> call \<Rightarrow> world" where
  "run_call w GetPlugins = snd (get_plugins w)"
| "run_call w GetModelClasses = snd (get_model_classes w)"
| "run_call w (GetPluginByModel mc) = snd (get_plugin_by_model w mc)"
| "run_call w (GetModelAdmin mc) = snd (get_model_admin w mc)"

definition run_calls :: "world \<Rightarrow> call list \<Rightarrow> world" where
  "run_calls w cs = foldl run_call w cs"

text \<open>The pool after a sequence of \<open>register\<close> calls, whatever each of them raised.\<close>

definition register_calls :: "page_type_pool \<Rightarrow> plugin_class list \<Rightarrow> page_type_pool" where
  "register_calls p cs = foldl (\<lambda>p c. snd (register p c)) p cs"

text \<open>The same when every call of the sequence succeeds, \<open>None\<close> otherwise.\<close>

fun register_all :: "page_type_pool \<Rightarrow> plugin_class list \<Rightarrow> page_type_pool option" where
  "register_all p [] = Some p"
| "register_all p (c # cs) =
     (case register p c of
        (None, p') \<Rightarrow> register_all p' cs
      | (Some e, p') \<Rightarrow> None)"

section \<open>Fixtures\<close>

text \<open>A small table: the root page, a published toplevel page, a draft and a child page.\<close>

definition root_page :: cms_object where
  "root_page = \<lparr>cms_id = 1, status = PUBLISHED, in_navigation = True, parent = None,
     cached_url = ''/'', is_current = None\<rparr>"

definition about_page :: cms_object where
  "about_page = \<lparr>cms_id = 2, status = PUBLISHED, in_navigation = True, parent = None,
     cached_url = ''/about/'', is_current = None\<rparr>"

definition draft_page :: cms_object where
  "draft_page = \<lparr>cms_id = 3, status = DRAFT, in_navigation = True, parent = None,
     cached_url = ''/draft/'', is_current = None\<rparr>"

definition team_page :: cms_object where
  "team_page = \<lparr>cms_id = 4, status = PUBLISHED, in_navigation = True, parent = Some 2,
     cached_url = ''/about/team/'', is_current = None\<rparr>"

definition site_db :: "cms_object list" where
  "site_db = [root_page, about_page, draft_page, team_page]"

definition persisted :: "cms_object \<Rightarrow> int \<times> status \<times> bool \<times> int option \<times> string" where
  "persisted r = (cms_id r, status r, in_navigation r, parent r, cached_url r)"

text \<open>
  Two invariants of the registry. The first holds whatever \<open>register\<close> raises: names
  are registered once, an instance is stored under the name of its class, and the model
  mapping leads to a registered plugin of that model. The second holds while every
  registration succeeds: each registered plugin is the plugin of its model.
\<close>

definition registry_consistent :: "page_type_pool \<Rightarrow> bool" where
  "registry_consistent p \<longleftrightarrow>
     distinct (map fst (plugins p))
     \<and> (\<forall>n c. map_of (plugins p) n = Some c \<longrightarrow> cls_name c = n)
     \<and> (\<forall>m n. plugin_for_model p m = Some n \<longrightarrow>
           (\<exists>c. map_of (plugins p) n = Some c \<and> model c = Some m))"

definition registry_one_to_one :: "page_type_pool \<Rightarrow> bool" where
  "registry_one_to_one p \<longleftrightarrow>
     (\<forall>n c. map_of (plugins p) n = Some c \<longrightarrow>
        (\<exists>m. model c = Some m \<and> plugin_for_model p m = Some n \<and> admin_site p m \<noteq> None))"

text \<open>
  Pools and classes for the examples: the pool after \<open>FluentPagePlugin\<close> registered, the
  pool after both plugins of the repository registered, a class that bears the name of
  \<open>FluentPagePlugin\<close> and sets no model, and a page.
\<close>

definition fluent_pool :: page_type_pool where
  "fluent_pool = snd (register PageTypePool_init FluentPagePlugin)"

definition both_pool :: page_type_pool where
  "both_pool = register_calls PageTypePool_init [FluentPagePlugin, TextFilePlugin []]"

definition NamesakePlugin :: plugin_class where
  "NamesakePlugin =
     PageTypePlugin\<lparr>cls_name := ''FluentPagePlugin'',
       cls_bases := ''FluentPagePlugin'' # cls_bases PageTypePlugin\<rparr>"

definition demo_page :: page where
  "demo_page = \<lparr>page_id = 1, parent_site = ''example.org'',
     layout_template_path = ''layouts/default.html'', content_type = ''text/plain'',
     content = ''hello''\<rparr>"

text \<open>
  Applications for the examples: the two of the repository, one without a
  \<open>page_type_plugins\<close> module, one whose module imports a missing module, and one whose
  module imports a missing module with a name that contains \<open>page_type_plugins\<close>.
  \<open>new_world\<close> is the interpreter at start: nothing loaded, the pool as \<open>__init__\<close>
  leaves it.
\<close>

definition fluentpage_app :: app where
  "fluentpage_app = \<lparr>app_name = ''fluent_pages.pagetypes.fluentpage'',
     submodules = [(''page_type_plugins'', [Register FluentPagePlugin])]\<rparr>"

definition textfile_app :: app where
  "textfile_app = \<lparr>app_name = ''fluent_pages.pagetypes.textfile'',
     submodules = [(''page_type_plugins'', [Register (TextFilePlugin [])])]\<rparr>"

definition admin_app :: app where
  "admin_app = \<lparr>app_name = ''django.contrib.admin'', submodules = []\<rparr>"

definition broken_app :: app where
  "broken_app = \<lparr>app_name = ''shop'',
     submodules = [(''page_type_plugins'', [FailingImport ''No module named payments''])]\<rparr>"

definition helper_app :: app where
  "helper_app = \<lparr>app_name = ''blog'',
     submodules = [(''page_type_plugins'',
       [FailingImport ''No module named page_type_plugins_helpers''])]\<rparr>"

definition new_world :: "app list \<Rightarrow> world" where
  "new_world apps =
     \<lparr>installed_apps = apps, sys_modules = [], import_calls = [], pool = PageTypePool_init\<rparr>"

definition Session :: model_class where
  "Session = \<lparr>model_name = ''Session'', model_bases = [''Session'', ''Model'']\<rparr>"

text \<open>
  Interpreters at start: with the application whose module is broken, with that
  application after the fluent page application, and with three sound applications.
\<close>

definition broken_world :: world where
  "broken_world = new_world [broken_app]"

definition half_world :: world where
  "half_world = new_world [fluentpage_app, broken_app]"

definition good_world :: world where
  "good_world = new_world [admin_app, fluentpage_app, textfile_app]"


section \<open>Properties of the resolver\<close>

subsection \<open>Stripping and normalising\<close>

lemma dropWhile_replicate_append: "dropWhile (\<lambda>x. x = c) (replicate m c @ p) = dropWhile (\<lambda>x. x = c) p"
  by (induction m) auto

lemma dropWhile_all: "(\<forall>x\<in>set p. x = c) \<Longrightarrow> dropWhile (\<lambda>x. x = c) p = []"
  by (induction p) auto

lemma dropWhile_append_replicate:
  "dropWhile (\<lambda>x. x = c) (rev (dropWhile (\<lambda>x. x = c) (p @ replicate n c)))
     = dropWhile (\<lambda>x. x = c) (rev (dropWhile (\<lambda>x. x = c) p))"
proof (cases "\<forall>x\<in>set p. x = c")
  case True
  then have "dropWhile (\<lambda>x. x = c) p = []" by (rule dropWhile_all)
  moreover from True have "dropWhile (\<lambda>x. x = c) (p @ replicate n c) = []"
    by (intro dropWhile_all) auto
  ultimately show ?thesis by (simp only: rev.simps dropWhile.simps)
next
  case False
  then obtain x where x: "x \<in> set p" "\<not> (x = c)" by blast
  have e: "dropWhile (\<lambda>x. x = c) (p @ replicate n c) = dropWhile (\<lambda>x. x = c) p @ replicate n c"
    using x by (rule dropWhile_append1)
  have "dropWhile (\<lambda>x. x = c) (rev (dropWhile (\<lambda>x. x = c) p @ replicate n c))
      = dropWhile (\<lambda>x. x = c) (replicate n c @ rev (dropWhile (\<lambda>x. x = c) p))"
    by (simp only: rev_append rev_replicate)
  also have "\<dots> = dropWhile (\<lambda>x. x = c) (rev (dropWhile (\<lambda>x. x = c) p))"
    by (rule dropWhile_replicate_append)
  finally show ?thesis by (simp only: e)
qed

lemma py_strip_pad: "py_strip c (replicate m c @ p @ replicate n c) = py_strip c p"
  unfolding py_strip_def
  by (simp only: dropWhile_replicate_append dropWhile_append_replicate)

lemma dropWhile_front: "\<exists>a. s = replicate a c @ dropWhile (\<lambda>x. x = c) s"
proof (induction s)
  case Nil
  then show ?case by simp
next
  case (Cons x s)
  show ?case
  proof (cases "x = c")
    case True
    from Cons obtain a where "s = replicate a c @ dropWhile (\<lambda>x. x = c) s" by blast
    then have "x # s = replicate (Suc a) c @ dropWhile (\<lambda>x. x = c) (x # s)"
      using True by simp
    then show ?thesis by blast
  next
    case False
    then have "x # s = replicate 0 c @ dropWhile (\<lambda>x. x = c) (x # s)" by simp
    then show ?thesis by blast
  qed
qed

lemma py_strip_decomp: "\<exists>a b. p = replicate a c @ py_strip c p @ replicate b c"
proof -
  obtain a where "p = replicate a c @ dropWhile (\<lambda>x. x = c) p"
    using dropWhile_front [where s = p and c = c] by (rule exE)
  then have a: "replicate a c @ dropWhile (\<lambda>x. x = c) p = p" by (rule sym)
  obtain b where "rev (dropWhile (\<lambda>x. x = c) p)
      = replicate b c @ dropWhile (\<lambda>x. x = c) (rev (dropWhile (\<lambda>x. x = c) p))"
    using dropWhile_front [where s = "rev (dropWhile (\<lambda>x. x = c) p)" and c = c] by (rule exE)
  then have "rev (rev (dropWhile (\<lambda>x. x = c) p))
      = rev (replicate b c @ dropWhile (\<lambda>x. x = c) (rev (dropWhile (\<lambda>x. x = c) p)))"
    by (rule arg_cong)
  then have "dropWhile (\<lambda>x. x = c) p = py_strip c p @ replicate b c"
    by (simp only: rev_rev_ident rev_append rev_replicate py_strip_def)
  then have m: "py_strip c p @ replicate b c = dropWhile (\<lambda>x. x = c) p" by (rule sym)
  have "replicate a c @ py_strip c p @ replicate b c = p" by (simp only: m a)
  then have "p = replicate a c @ py_strip c p @ replicate b c" by (rule sym)
  then show ?thesis by blast
qed

lemma py_strip_ends:
  assumes "py_strip c p \<noteq> []"
  shows "hd (py_strip c p) \<noteq> c \<and> last (py_strip c p) \<noteq> c"
proof -
  let ?f = "dropWhile (\<lambda>x. x = c)"
  have ne: "?f (rev (?f p)) \<noteq> []" using assms by (simp add: py_strip_def)
  have ne': "?f p \<noteq> []"
  proof
    assume "?f p = []"
    then have "?f (rev (?f p)) = []" by (simp only: rev.simps dropWhile.simps)
    with ne show False by simp
  qed
  have "hd (?f (rev (?f p))) \<noteq> c" using ne hd_dropWhile [of "\<lambda>x. x = c" "rev (?f p)"] by simp
  then have l: "last (py_strip c p) \<noteq> c" using ne by (simp add: py_strip_def last_rev)
  have "hd (?f p) \<noteq> c" using ne' hd_dropWhile [of "\<lambda>x. x = c" p] by simp
  moreover have "last (?f (rev (?f p))) = last (rev (?f p))"
  proof -
    from ne obtain x where "x \<in> set (rev (?f p))" "x \<noteq> c"
      by (meson dropWhile_eq_Nil_conv)
    then show ?thesis by (rule dropWhile_last)
  qed
  ultimately have "hd (py_strip c p) \<noteq> c"
    using ne ne' by (simp add: py_strip_def hd_rev last_rev)
  with l show ?thesis by simp
qed

lemma py_strip_idem: "py_strip c (py_strip c p) = py_strip c p"
proof -
  obtain a b where "p = replicate a c @ py_strip c p @ replicate b c"
    using py_strip_decomp [where p = p and c = c] by (elim exE)
  then have d: "replicate a c @ py_strip c p @ replicate b c = p" by (rule sym)
  have "py_strip c (py_strip c p) = py_strip c (replicate a c @ py_strip c p @ replicate b c)"
    by (rule py_strip_pad [symmetric])
  also have "\<dots> = py_strip c p" by (simp only: d)
  finally show ?thesis .
qed

lemma py_strip_wrap: "py_strip c (c # py_strip c p @ [c]) = py_strip c p"
proof -
  have "py_strip c (replicate 1 c @ py_strip c p @ replicate 1 c) = py_strip c (py_strip c p)"
    by (rule py_strip_pad)
  then show ?thesis by (simp add: py_strip_idem)
qed

lemma py_strip_single: "py_strip c [c] = []"
  by (simp add: py_strip_def)

lemma normalize_idem: "normalize (normalize p) = normalize p"
proof (cases "py_strip CHR ''/'' p = []")
  case True
  then have "normalize p = ''/''" by (simp add: normalize_def)
  then show ?thesis by (simp add: normalize_def py_strip_single)
next
  case False
  then have n: "normalize p = CHR ''/'' # py_strip CHR ''/'' p @ ''/''"
    by (simp add: normalize_def)
  have "py_strip CHR ''/'' (normalize p) = py_strip CHR ''/'' p"
    by (simp only: n py_strip_wrap)
  then show ?thesis using False by (simp add: normalize_def)
qed

lemma normalize_pad: "normalize (replicate m CHR ''/'' @ p @ replicate n CHR ''/'') = normalize p"
  by (simp add: normalize_def py_strip_pad)

lemma get_for_path_normalize:
  "get_for_path db p = qs_get (filter (\<lambda>r. cached_url r = normalize p) (published db))"
  by (simp add: get_for_path_def normalize_def Let_def)

lemma filter_eq_single: "distinct xs \<Longrightarrow> x \<in> set xs \<Longrightarrow> filter (\<lambda>y. y = x) xs = [x]"
proof (induction xs)
  case Nil
  then show ?case by simp
next
  case (Cons a xs)
  show ?case
  proof (cases "a = x")
    case True
    with Cons.prems have "x \<notin> set xs" by simp
    then have "\<forall>y\<in>set xs. y \<noteq> x" by blast
    then have "filter (\<lambda>y. y = x) xs = []" by (simp only: filter_empty_conv simp_thms)
    with True show ?thesis by simp
  next
    case False
    with Cons.prems have "distinct xs" "x \<in> set xs" by simp_all
    then have "filter (\<lambda>y. y = x) xs = [x]" by (rule Cons.IH)
    with False show ?thesis by simp
  qed
qed

lemma filter_unique:
  assumes "distinct xs" "x \<in> set xs" "P x" "\<forall>y\<in>set xs. P y \<longrightarrow> y = x"
  shows "filter P xs = [x]"
proof -
  have "filter P xs = filter (\<lambda>y. y = x) xs"
  proof (rule filter_cong [OF refl])
    fix y assume "y \<in> set xs"
    with assms(3,4) show "P y = (y = x)" by blast
  qed
  with assms(1,2) show ?thesis by (simp only: filter_eq_single)
qed

lemma qs_get_Inr: "qs_get xs = Inr r \<Longrightarrow> xs = [r]"
  by (cases xs rule: qs_get.cases) auto

lemma qs_get_DoesNotExist: "qs_get xs = Inl DoesNotExist \<longleftrightarrow> xs = []"
  by (cases xs rule: qs_get.cases) auto

text \<open>
  Claim C1. \<open>get_for_path\<close> strips the separators at both ends of the path (and
  nothing else), wraps the remainder as \<open>/segment/\<close>, or takes \<open>/\<close> when nothing
  remains, and looks that value up among the published rows: it returns the row when
  exactly one published row has that cached URL, and a returned row is always a published
  row with that cached URL. Paths that differ only in separators at the ends resolve
  alike, \<open>a/b\<close>, \<open>/a/b/\<close> and \<open>/a/b\<close> normalise to \<open>/a/b/\<close>, and the empty path and
  \<open>/\<close> both look up the root URL \<open>/\<close>.
\<close>

theorem get_for_path_normalizes:
  "get_for_path db p = qs_get (filter (\<lambda>r. cached_url r = normalize p) (published db))
   \<and> (\<exists>a b. p = replicate a CHR ''/'' @ py_strip CHR ''/'' p @ replicate b CHR ''/'')
   \<and> (py_strip CHR ''/'' p \<noteq> [] \<longrightarrow>
        hd (py_strip CHR ''/'' p) \<noteq> CHR ''/'' \<and> last (py_strip CHR ''/'' p) \<noteq> CHR ''/'')
   \<and> (distinct db \<and> r \<in> set db \<and> status r = PUBLISHED \<and> cached_url r = normalize p
        \<and> (\<forall>r'\<in>set db. status r' = PUBLISHED \<and> cached_url r' = normalize p \<longrightarrow> r' = r)
        \<longrightarrow> get_for_path db p = Inr r)
   \<and> (get_for_path db p = Inr r \<longrightarrow>
        r \<in> set db \<and> status r = PUBLISHED \<and> cached_url r = normalize p)
   \<and> get_for_path db (replicate m CHR ''/'' @ p @ replicate n CHR ''/'') = get_for_path db p
   \<and> get_for_path db (normalize p) = get_for_path db p
   \<and> normalize ''a/b'' = ''/a/b/'' \<and> normalize ''/a/b/'' = ''/a/b/'' \<and> normalize ''/a/b'' = ''/a/b/''
   \<and> normalize [] = ''/'' \<and> normalize ''/'' = ''/''
   \<and> get_for_path db [] = get_for_path db ''/''"
proof -
  have c1: "get_for_path db p = qs_get (filter (\<lambda>r. cached_url r = normalize p) (published db))"
    by (rule get_for_path_normalize)
  have c2: "\<exists>a b. p = replicate a CHR ''/'' @ py_strip CHR ''/'' p @ replicate b CHR ''/''"
    by (rule py_strip_decomp)
  have c3: "py_strip CHR ''/'' p \<noteq> [] \<longrightarrow>
        hd (py_strip CHR ''/'' p) \<noteq> CHR ''/'' \<and> last (py_strip CHR ''/'' p) \<noteq> CHR ''/''"
    using py_strip_ends [where c = "CHR ''/''" and p = p] by (rule impI)
  have c4: "distinct db \<and> r \<in> set db \<and> status r = PUBLISHED \<and> cached_url r = normalize p
        \<and> (\<forall>r'\<in>set db. status r' = PUBLISHED \<and> cached_url r' = normalize p \<longrightarrow> r' = r)
        \<longrightarrow> get_for_path db p = Inr r"
  proof (intro impI, elim conjE)
    assume h: "distinct db" "r \<in> set db" "status r = PUBLISHED" "cached_url r = normalize p"
       "\<forall>r'\<in>set db. status r' = PUBLISHED \<and> cached_url r' = normalize p \<longrightarrow> r' = r"
    have "filter (\<lambda>x. status x = PUBLISHED \<and> cached_url x = normalize p) db = [r]"
    proof (rule filter_unique)
      show "distinct db" by (rule h(1))
      show "r \<in> set db" by (rule h(2))
      show "status r = PUBLISHED \<and> cached_url r = normalize p" using h(3,4) by (rule conjI)
      show "\<forall>y\<in>set db. status y = PUBLISHED \<and> cached_url y = normalize p \<longrightarrow> y = r"
        by (rule h(5))
    qed
    then have "filter (\<lambda>x. cached_url x = normalize p) (published db) = [r]"
      by (simp add: published_def conj_commute)
    then show "get_for_path db p = Inr r" by (simp only: get_for_path_normalize qs_get.simps)
  qed
  have c5: "get_for_path db p = Inr r \<longrightarrow>
        r \<in> set db \<and> status r = PUBLISHED \<and> cached_url r = normalize p"
  proof
    assume "get_for_path db p = Inr r"
    then have "qs_get (filter (\<lambda>x. cached_url x = normalize p) (published db)) = Inr r"
      by (simp only: get_for_path_normalize)
    then have "filter (\<lambda>x. cached_url x = normalize p) (published db) = [r]"
      by (rule qs_get_Inr)
    then have "r \<in> set (filter (\<lambda>x. cached_url x = normalize p) (published db))" by simp
    then show "r \<in> set db \<and> status r = PUBLISHED \<and> cached_url r = normalize p"
      by (simp add: published_def)
  qed
  have c6: "get_for_path db (replicate m CHR ''/'' @ p @ replicate n CHR ''/'') = get_for_path db p"
    by (simp only: get_for_path_normalize normalize_pad)
  have c7: "get_for_path db (normalize p) = get_for_path db p"
    by (simp only: get_for_path_normalize normalize_idem)
  have ex: "normalize ''a/b'' = ''/a/b/''" "normalize ''/a/b/'' = ''/a/b/''"
    "normalize ''/a/b'' = ''/a/b/''" "normalize [] = ''/''" "normalize ''/'' = ''/''"
    by (simp_all add: normalize_def py_strip_def)
  have c8: "get_for_path db [] = get_for_path db ''/''"
    by (simp only: get_for_path_normalize ex)
  show ?thesis
    by (intro conjI c1 c2 c3 c4 c5 c6 c7 ex c8)
qed

lemmas site_defs = site_db_def root_page_def about_page_def draft_page_def team_page_def

theorem get_for_path_normalizes_witness:
  "distinct site_db \<and> about_page \<in> set site_db \<and> status about_page = PUBLISHED
   \<and> cached_url about_page = normalize ''about''
   \<and> get_for_path site_db ''about'' = Inr about_page
   \<and> get_for_path site_db ''//about/'' = Inr about_page"
proof -
  have h: "distinct site_db \<and> about_page \<in> set site_db \<and> status about_page = PUBLISHED
      \<and> cached_url about_page = normalize ''about''
      \<and> (\<forall>r'\<in>set site_db. status r' = PUBLISHED \<and> cached_url r' = normalize ''about''
            \<longrightarrow> r' = about_page)"
    by (simp add: site_defs normalize_def py_strip_def)
  note t = get_for_path_normalizes [of site_db "''about''" about_page 2 1]
  from t have "distinct site_db \<and> about_page \<in> set site_db \<and> status about_page = PUBLISHED
      \<and> cached_url about_page = normalize ''about''
      \<and> (\<forall>r'\<in>set site_db. status r' = PUBLISHED \<and> cached_url r' = normalize ''about''
            \<longrightarrow> r' = about_page)
      \<longrightarrow> get_for_path site_db ''about'' = Inr about_page"
    by (elim conjE)
  from this h have a: "get_for_path site_db ''about'' = Inr about_page" by (rule mp)
  from t have "get_for_path site_db (replicate 2 CHR ''/'' @ ''about'' @ replicate 1 CHR ''/'')
      = get_for_path site_db ''about''"
    by (elim conjE)
  then have b: "get_for_path site_db ''//about/'' = Inr about_page"
    using a by (simp add: numeral_2_eq_2)
  from h a b show ?thesis by (intro conjI) (elim conjE, assumption)+
qed

text \<open>
  Claim C2. \<open>get_for_path\<close> raises \<open>DoesNotExist\<close> exactly when no published row has
  the normalised path (no such row at all, or only unpublished ones).
  \<open>get_for_path_or_404\<close> raises \<open>Http404\<close> exactly in that case, with a message
  quoting the path as given, and otherwise has the outcome of \<open>get_for_path\<close>: the same
  row whenever a row is returned.
\<close>

theorem get_for_path_not_found:
  "(get_for_path db p = Inl DoesNotExist
      \<longleftrightarrow> \<not> (\<exists>r\<in>set db. cached_url r = normalize p \<and> status r = PUBLISHED))
   \<and> (get_for_path db p = Inl DoesNotExist \<longrightarrow>
        get_for_path_or_404 db p
          = Inl (Http404 (''No published CmsObject found for the path: '' @ [CHR 0x27] @ p @ [CHR 0x27])))
   \<and> ((\<exists>msg. get_for_path_or_404 db p = Inl (Http404 msg)) \<longleftrightarrow> get_for_path db p = Inl DoesNotExist)
   \<and> (get_for_path db p \<noteq> Inl DoesNotExist \<longrightarrow> get_for_path_or_404 db p = get_for_path db p)
   \<and> (get_for_path db p = Inr r \<longrightarrow> get_for_path_or_404 db p = Inr r)"
proof -
  have a: "get_for_path db p = Inl DoesNotExist
      \<longleftrightarrow> \<not> (\<exists>r\<in>set db. cached_url r = normalize p \<and> status r = PUBLISHED)"
    by (auto simp: get_for_path_normalize qs_get_DoesNotExist published_def filter_empty_conv)
  have never: "get_for_path db p \<noteq> Inl (Http404 msg)" for msg
    by (cases "filter (\<lambda>r. cached_url r = normalize p) (published db)" rule: qs_get.cases)
       (simp_all add: get_for_path_normalize)
  have b: "(\<exists>msg. get_for_path_or_404 db p = Inl (Http404 msg)) \<longleftrightarrow> get_for_path db p = Inl DoesNotExist"
    using never by (auto simp: get_for_path_or_404_def split: sum.splits cms_error.splits)
  show ?thesis
    using a b by (auto simp: get_for_path_or_404_def split: sum.splits cms_error.splits)
qed

theorem get_for_path_not_found_witness:
  "get_for_path site_db ''draft'' = Inl DoesNotExist
   \<and> get_for_path_or_404 site_db ''draft''
       = Inl (Http404 (''No published CmsObject found for the path: '' @ [CHR 0x27] @ ''draft'' @ [CHR 0x27]))
   \<and> get_for_path site_db ''missing'' = Inl DoesNotExist
   \<and> get_for_path_or_404 site_db ''about'' = Inr about_page"
  using get_for_path_not_found [of site_db "''draft''" about_page]
    get_for_path_not_found [of site_db "''missing''" about_page]
    get_for_path_not_found [of site_db "''about''" about_page]
  by (simp add: site_db_def root_page_def about_page_def draft_page_def team_page_def
      normalize_def py_strip_def get_for_path_def published_def)

subsection \<open>Toplevel navigation\<close>

lemma count_distinct_key:
  "distinct (map g xs) \<Longrightarrow> length (filter (\<lambda>r. g r = c) xs) = (if c \<in> g ` set xs then 1 else 0)"
proof (induction xs)
  case Nil
  then show ?case by simp
next
  case (Cons a xs)
  then have d: "g a \<notin> g ` set xs" and ih: "length (filter (\<lambda>r. g r = c) xs) = (if c \<in> g ` set xs then 1 else 0)"
    by simp_all
  show ?case
  proof (cases "g a = c")
    case True
    with d have "c \<notin> g ` set xs" by simp
    with ih True show ?thesis by simp
  next
    case False
    then have "c \<in> g ` set (a # xs) \<longleftrightarrow> c \<in> g ` set xs" by auto
    with ih False show ?thesis by simp
  qed
qed

lemma toplevel_navigation_None:
  "toplevel_navigation db None
     = filter (\<lambda>r. status r = PUBLISHED \<and> in_navigation r \<and> parent r = None) db"
  by (simp add: toplevel_navigation_def in_navigation_qs_def published_def conj_commute conj_left_commute)

lemma toplevel_navigation_Some:
  "toplevel_navigation db (Some cur)
     = map (\<lambda>r. r\<lparr>is_current := Some (cms_id r = cms_id cur)\<rparr>) (toplevel_navigation db None)"
  by (simp add: toplevel_navigation_def mark_current_def add_prop_def Let_def)

lemma filter_marked:
  "filter (\<lambda>r. is_current r = Some True) (map (\<lambda>r. r\<lparr>is_current := Some (cms_id r = c)\<rparr>) xs)
     = map (\<lambda>r. r\<lparr>is_current := Some (cms_id r = c)\<rparr>) (filter (\<lambda>r. cms_id r = c) xs)"
  by (induction xs) simp_all

text \<open>
  Claim C6. \<open>toplevel_navigation\<close> returns the published rows that are in the navigation
  and have no parent. With a current page, each returned object is the row with the
  attribute \<open>is_current\<close> set to whether its id is the current page's id; the columns
  of every returned object are those of its row, and the table, an argument that is
  never written, stays as it was. With distinct primary keys exactly one returned object
  is marked true when the current page is among the results, and none otherwise.
\<close>

theorem toplevel_navigation_marks_current:
  "toplevel_navigation db None
     = filter (\<lambda>r. status r = PUBLISHED \<and> in_navigation r \<and> parent r = None) db
   \<and> toplevel_navigation db (Some cur)
       = map (\<lambda>r. r\<lparr>is_current := Some (cms_id r = cms_id cur)\<rparr>) (toplevel_navigation db None)
   \<and> (\<forall>r\<in>set (toplevel_navigation db (Some cur)). is_current r = Some (cms_id r = cms_id cur))
   \<and> map persisted (toplevel_navigation db (Some cur)) = map persisted (toplevel_navigation db None)
   \<and> (distinct (map cms_id db) \<longrightarrow>
        length (filter (\<lambda>r. is_current r = Some True) (toplevel_navigation db (Some cur)))
          = (if cms_id cur \<in> cms_id ` set (toplevel_navigation db None) then 1 else 0))"
proof -
  let ?top = "toplevel_navigation db None"
  have c3: "\<forall>r\<in>set (toplevel_navigation db (Some cur)). is_current r = Some (cms_id r = cms_id cur)"
    by (simp add: toplevel_navigation_Some)
  have c4: "map persisted (toplevel_navigation db (Some cur)) = map persisted ?top"
    by (simp add: toplevel_navigation_Some persisted_def)
  have c5: "distinct (map cms_id db) \<longrightarrow>
        length (filter (\<lambda>r. is_current r = Some True) (toplevel_navigation db (Some cur)))
          = (if cms_id cur \<in> cms_id ` set ?top then 1 else 0)"
  proof
    assume "distinct (map cms_id db)"
    then have "distinct (map cms_id ?top)"
      by (simp only: toplevel_navigation_None distinct_map_filter)
    then have "length (filter (\<lambda>r. cms_id r = cms_id cur) ?top)
        = (if cms_id cur \<in> cms_id ` set ?top then 1 else 0)"
      by (rule count_distinct_key)
    then show "length (filter (\<lambda>r. is_current r = Some True) (toplevel_navigation db (Some cur)))
          = (if cms_id cur \<in> cms_id ` set ?top then 1 else 0)"
      by (simp only: toplevel_navigation_Some filter_marked length_map)
  qed
  show ?thesis
    by (intro conjI toplevel_navigation_None toplevel_navigation_Some c3 c4 c5)
qed

theorem toplevel_navigation_marks_current_witness:
  "distinct (map cms_id site_db)
   \<and> toplevel_navigation site_db (Some about_page)
       = [root_page\<lparr>is_current := Some False\<rparr>, about_page\<lparr>is_current := Some True\<rparr>]
   \<and> length (filter (\<lambda>r. is_current r = Some True) (toplevel_navigation site_db (Some about_page))) = 1
   \<and> length (filter (\<lambda>r. is_current r = Some True) (toplevel_navigation site_db (Some team_page))) = 0"
proof -
  have d: "distinct (map cms_id site_db)" by (simp add: site_defs)
  have top: "toplevel_navigation site_db None = [root_page, about_page]"
    by (simp add: toplevel_navigation_None site_defs)
  note t = toplevel_navigation_marks_current [of site_db about_page]
  note u = toplevel_navigation_marks_current [of site_db team_page]
  from t have "toplevel_navigation site_db (Some about_page)
       = map (\<lambda>r. r\<lparr>is_current := Some (cms_id r = cms_id about_page)\<rparr>) (toplevel_navigation site_db None)"
    by (elim conjE)
  then have a: "toplevel_navigation site_db (Some about_page)
       = [root_page\<lparr>is_current := Some False\<rparr>, about_page\<lparr>is_current := Some True\<rparr>]"
    by (simp add: top) (simp add: site_defs)
  from t d have "length (filter (\<lambda>r. is_current r = Some True) (toplevel_navigation site_db (Some about_page)))
          = (if cms_id about_page \<in> cms_id ` set (toplevel_navigation site_db None) then 1 else 0)"
    by (elim conjE impE)
  then have b: "length (filter (\<lambda>r. is_current r = Some True) (toplevel_navigation site_db (Some about_page))) = 1"
    by (simp add: top)
  from u d have "length (filter (\<lambda>r. is_current r = Some True) (toplevel_navigation site_db (Some team_page)))
          = (if cms_id team_page \<in> cms_id ` set (toplevel_navigation site_db None) then 1 else 0)"
    by (elim conjE impE)
  then have c: "length (filter (\<lambda>r. is_current r = Some True) (toplevel_navigation site_db (Some team_page))) = 0"
    by (simp add: top) (simp add: site_defs)
  from d a b c show ?thesis by (intro conjI)
qed

section \<open>Properties of the plugin pool\<close>

subsection \<open>Registration\<close>

lemma register_success:
  assumes "register p c = (None, p')"
  shows "\<exists>m. issubclass (cls_bases c) ''PageTypePlugin'' \<and> model c = Some m
           \<and> issubclass (model_bases m) ''UrlNode''
           \<and> map_of (plugins p) (cls_name c) = None \<and> admin_site p m = None
           \<and> p' = p\<lparr>plugins := AList.update (cls_name c) c (plugins p),
                     plugin_for_model := (plugin_for_model p)(m \<mapsto> cls_name c),
                     admin_site := (admin_site p)(m \<mapsto> (model_admin c, m))\<rparr>"
  using assms
  by (auto simp: register_def admin_site_register_def Let_def
      simp del: split_paired_All split_paired_Ex split: if_splits option.splits)

lemma register_failure:
  assumes "register p c = (Some e, p')"
  shows "p' = p
         \<or> (\<exists>m msg. e = AdminAlreadyRegistered msg \<and> model c = Some m
               \<and> map_of (plugins p) (cls_name c) = None \<and> admin_site p m \<noteq> None
               \<and> p' = p\<lparr>plugins := AList.update (cls_name c) c (plugins p),
                         plugin_for_model := (plugin_for_model p)(m \<mapsto> cls_name c)\<rparr>)"
  using assms
  by (auto simp: register_def admin_site_register_def Let_def
      simp del: split_paired_All split_paired_Ex split: if_splits option.splits)

lemma register_failure_unchanged:
  assumes "register p c = (Some e, p')"
    and "(\<exists>msg. e = AssertionError msg) \<or> (\<exists>msg. e = PageTypeAlreadyRegistered msg)"
  shows "p' = p"
  using assms
  by (auto simp: register_def admin_site_register_def Let_def
      simp del: split_paired_All split_paired_Ex split: if_splits option.splits)

lemma register_detected: "detected (snd (register p c)) = detected p"
  by (auto simp: register_def admin_site_register_def Let_def
      simp del: split_paired_All split_paired_Ex split: if_splits option.splits)

lemma register_raises:
  "fst (register p c) \<noteq> Some (PageTypeNotFound msg) \<and> fst (register p c) \<noteq> Some (ImportError msg)
   \<and> fst (register p c) \<noteq> Some (KeyError msg) \<and> fst (register p c) \<noteq> Some (ImproperlyConfigured msg)"
  by (auto simp: register_def admin_site_register_def Let_def
      simp del: split_paired_All split_paired_Ex split: if_splits option.splits)


lemma update_fresh: "map_of al k = None \<Longrightarrow> AList.update k v al = al @ [(k, v)]"
  by (induction al) (auto split: if_splits)

lemma consistent_update:
  assumes inv: "registry_consistent p"
    and fresh: "map_of (plugins p) (cls_name c) = None"
    and mc: "model c = Some m"
    and pl: "plugins p' = AList.update (cls_name c) c (plugins p)"
    and pf: "plugin_for_model p' = (plugin_for_model p)(m \<mapsto> cls_name c)"
  shows "registry_consistent p'"
proof -
  from inv have d: "distinct (map fst (plugins p))"
    unfolding registry_consistent_def by (elim conjE)
  from inv have nm: "\<And>n c. map_of (plugins p) n = Some c \<Longrightarrow> cls_name c = n"
    unfolding registry_consistent_def by blast
  from inv have fm: "\<And>m n. plugin_for_model p m = Some n \<Longrightarrow>
      \<exists>c. map_of (plugins p) n = Some c \<and> model c = Some m"
    unfolding registry_consistent_def by blast
  have mo: "map_of (plugins p') = (map_of (plugins p))(cls_name c \<mapsto> c)"
    by (simp only: pl update_conv')
  have 1: "distinct (map fst (plugins p'))"
    using d by (simp only: pl distinct_update)
  have 2: "cls_name c' = n" if "map_of (plugins p') n = Some c'" for n c'
  proof (cases "n = cls_name c")
    case True
    with that mo show ?thesis by simp
  next
    case False
    with that mo have "map_of (plugins p) n = Some c'" by simp
    then show ?thesis by (rule nm)
  qed
  have 3: "\<exists>c'. map_of (plugins p') n = Some c' \<and> model c' = Some m'"
    if "plugin_for_model p' m' = Some n" for m' n
  proof (cases "m' = m")
    case True
    with that pf have "n = cls_name c" by simp
    with mo mc True show ?thesis by simp
  next
    case False
    with that pf have o: "plugin_for_model p m' = Some n" by simp
    from fm [OF o] obtain c' where c': "map_of (plugins p) n = Some c'" "model c' = Some m'"
      by (elim exE conjE)
    with fresh have "n \<noteq> cls_name c" by auto
    with c' mo show ?thesis by simp
  qed
  show ?thesis
    unfolding registry_consistent_def using 1 2 3 by (intro conjI allI impI)
qed

lemma consistent_register:
  assumes inv: "registry_consistent p"
  shows "registry_consistent (snd (register p c))"
proof (cases "register p c")
  case (Pair r p')
  have upd: "registry_consistent p'"
    if m: "model c = Some m" and f: "map_of (plugins p) (cls_name c) = None"
      and pl: "plugins p' = AList.update (cls_name c) c (plugins p)"
      and pf: "plugin_for_model p' = (plugin_for_model p)(m \<mapsto> cls_name c)" for m
    using inv f m pl pf by (rule consistent_update)
  show ?thesis
  proof (cases r)
    case None
    with Pair have "register p c = (None, p')" by simp
    from register_success [OF this] obtain m where
      m: "model c = Some m" and f: "map_of (plugins p) (cls_name c) = None"
      and e: "p' = p\<lparr>plugins := AList.update (cls_name c) c (plugins p),
                     plugin_for_model := (plugin_for_model p)(m \<mapsto> cls_name c),
                     admin_site := (admin_site p)(m \<mapsto> (model_admin c, m))\<rparr>"
      by (elim exE conjE)
    from e have pl: "plugins p' = AList.update (cls_name c) c (plugins p)"
      and pf: "plugin_for_model p' = (plugin_for_model p)(m \<mapsto> cls_name c)"
      by simp_all
    from m f pl pf have "registry_consistent p'" by (rule upd)
    with Pair show ?thesis by simp
  next
    case (Some e)
    with Pair have "register p c = (Some e, p')" by simp
    from register_failure [OF this] show ?thesis
    proof (elim disjE exE conjE)
      assume "p' = p"
      with Pair inv show ?thesis by simp
    next
      fix m msg
      assume m: "model c = Some m" and f: "map_of (plugins p) (cls_name c) = None"
        and e: "p' = p\<lparr>plugins := AList.update (cls_name c) c (plugins p),
                         plugin_for_model := (plugin_for_model p)(m \<mapsto> cls_name c)\<rparr>"
      from e have pl: "plugins p' = AList.update (cls_name c) c (plugins p)"
        and pf: "plugin_for_model p' = (plugin_for_model p)(m \<mapsto> cls_name c)"
        by simp_all
      from m f pl pf have "registry_consistent p'" by (rule upd)
      with Pair show ?thesis by simp
    qed
  qed
qed

lemma one_to_one_register:
  assumes inv: "registry_one_to_one p" and reg: "register p c = (None, p')"
  shows "registry_one_to_one p'"
proof -
  from register_success [OF reg] obtain m where
    mc: "model c = Some m" and fresh: "map_of (plugins p) (cls_name c) = None"
    and adm: "admin_site p m = None"
    and p': "p' = p\<lparr>plugins := AList.update (cls_name c) c (plugins p),
                     plugin_for_model := (plugin_for_model p)(m \<mapsto> cls_name c),
                     admin_site := (admin_site p)(m \<mapsto> (model_admin c, m))\<rparr>"
    by (elim exE conjE)
  from inv have old: "\<And>n c. map_of (plugins p) n = Some c \<Longrightarrow>
      \<exists>m. model c = Some m \<and> plugin_for_model p m = Some n \<and> admin_site p m \<noteq> None"
    unfolding registry_one_to_one_def by blast
  have mo: "map_of (plugins p') = (map_of (plugins p))(cls_name c \<mapsto> c)"
    by (simp add: p' update_conv')
  have pf: "plugin_for_model p' = (plugin_for_model p)(m \<mapsto> cls_name c)"
    and ad: "admin_site p' = (admin_site p)(m \<mapsto> (model_admin c, m))"
    by (simp_all add: p')
  have "\<exists>m'. model c' = Some m' \<and> plugin_for_model p' m' = Some n \<and> admin_site p' m' \<noteq> None"
    if h: "map_of (plugins p') n = Some c'" for n c'
  proof (cases "n = cls_name c")
    case True
    with h mo have "c' = c" by simp
    with mc True pf ad show ?thesis by simp
  next
    case False
    with h mo have "map_of (plugins p) n = Some c'" by simp
    from old [OF this] obtain m' where m': "model c' = Some m'" "plugin_for_model p m' = Some n"
      "admin_site p m' \<noteq> None" by (elim exE conjE)
    with adm have "m' \<noteq> m" by auto
    with m' pf ad show ?thesis by simp
  qed
  then show ?thesis unfolding registry_one_to_one_def by (intro allI impI)
qed

lemma register_calls_consistent:
  "registry_consistent p \<Longrightarrow> registry_consistent (register_calls p cs)"
proof (induction cs arbitrary: p)
  case Nil
  then show ?case by (simp add: register_calls_def)
next
  case (Cons c cs)
  from Cons.prems have "registry_consistent (snd (register p c))" by (rule consistent_register)
  then have "registry_consistent (register_calls (snd (register p c)) cs)" by (rule Cons.IH)
  then show ?case by (simp add: register_calls_def)
qed

lemma register_all_invariant:
  "registry_consistent p \<Longrightarrow> registry_one_to_one p \<Longrightarrow> register_all p cs = Some p' \<Longrightarrow>
     registry_consistent p' \<and> registry_one_to_one p'
     \<and> plugins p' = plugins p @ map (\<lambda>c. (cls_name c, c)) cs"
proof (induction cs arbitrary: p)
  case Nil
  then show ?case by simp
next
  case (Cons c cs)
  from Cons.prems(3) obtain q where q: "register p c = (None, q)" and rest: "register_all q cs = Some p'"
    by (auto split: prod.splits option.splits)
  from Cons.prems(1) have "registry_consistent (snd (register p c))" by (rule consistent_register)
  with q have cq: "registry_consistent q" by simp
  from Cons.prems(2) q have oq: "registry_one_to_one q" by (rule one_to_one_register)
  from Cons.IH [OF cq oq rest] have ih: "registry_consistent p'" "registry_one_to_one p'"
    "plugins p' = plugins q @ map (\<lambda>c. (cls_name c, c)) cs" by simp_all
  from register_success [OF q] have "plugins q = plugins p @ [(cls_name c, c)]"
    by (auto simp: update_fresh)
  with ih show ?case by simp
qed

lemma init_consistent: "registry_consistent PageTypePool_init \<and> registry_one_to_one PageTypePool_init"
  by (simp add: registry_consistent_def registry_one_to_one_def PageTypePool_init_def)

subsection \<open>Failing registrations\<close>

lemmas plugin_defs = PageTypePlugin_def FluentPagePlugin_def TextFilePlugin_def NamesakePlugin_def
  FluentPage_def TextFile_def issubclass_def

lemma fluent_pool_eq:
  "fluent_pool =
     \<lparr>plugins = [(''FluentPagePlugin'', FluentPagePlugin)],
      plugin_for_model = [FluentPage \<mapsto> ''FluentPagePlugin''],
      detected = False,
      admin_site = [FluentPage \<mapsto> (''FluentPageAdmin'', FluentPage)]\<rparr>"
proof -
  have "register PageTypePool_init FluentPagePlugin =
     (None, \<lparr>plugins = [(''FluentPagePlugin'', FluentPagePlugin)],
      plugin_for_model = [FluentPage \<mapsto> ''FluentPagePlugin''],
      detected = False,
      admin_site = [FluentPage \<mapsto> (''FluentPageAdmin'', FluentPage)]\<rparr>)"
    by (simp add: register_def admin_site_register_def PageTypePool_init_def Let_def
        PageTypePlugin_def FluentPagePlugin_def issubclass_def FluentPage_def)
  then show ?thesis by (simp add: fluent_pool_def)
qed

text \<open>
  A class whose name is already registered does not always raise
  \<open>PageTypeAlreadyRegistered\<close>: the three assertions run before the name is looked up,
  so a namesake of a registered plugin that sets no model fails its assertion.
\<close>

theorem register_name_collision_counterexample:
  "map_of (plugins fluent_pool) (cls_name NamesakePlugin) \<noteq> None
   \<and> register fluent_pool NamesakePlugin
       = (Some (AssertionError ''The plugin has no model defined''), fluent_pool)"
  by (simp add: fluent_pool_eq register_def NamesakePlugin_def PageTypePlugin_def issubclass_def)

text \<open>
  Claim C3, as the code has it. A plugin class that passes the three upfront checks
  and whose name is already in the name mapping raises \<open>PageTypeAlreadyRegistered\<close>;
  a class that fails a check raises the assertion failure of that check, whatever its
  name. When \<open>register\<close> fails for one of these four reasons (name collision, missing
  model, model not a subclass of \<open>UrlNode\<close>, plugin not a subclass of
  \<open>PageTypePlugin\<close>), the pool is exactly what it was before the call.
\<close>

theorem register_failure_modes:
  "(issubclass (cls_bases c) ''PageTypePlugin'' \<and> model c = Some m
      \<and> issubclass (model_bases m) ''UrlNode'' \<and> map_of (plugins p) (cls_name c) \<noteq> None
      \<longrightarrow> register p c
            = (Some (PageTypeAlreadyRegistered
                 (''['' @ cls_name c @ ''] a plugin with this name is already registered'')), p))
   \<and> (\<not> issubclass (cls_bases c) ''PageTypePlugin''
      \<longrightarrow> register p c = (Some (AssertionError ''The plugin must inherit from `PageTypePlugin`''), p))
   \<and> (issubclass (cls_bases c) ''PageTypePlugin'' \<and> model c = None
      \<longrightarrow> register p c = (Some (AssertionError ''The plugin has no model defined''), p))
   \<and> (issubclass (cls_bases c) ''PageTypePlugin'' \<and> model c = Some m
      \<and> \<not> issubclass (model_bases m) ''UrlNode''
      \<longrightarrow> register p c = (Some (AssertionError ''The plugin model must inherit from `ContentItem`''), p))
   \<and> ((\<exists>msg. fst (register p c) = Some (AssertionError msg))
        \<or> (\<exists>msg. fst (register p c) = Some (PageTypeAlreadyRegistered msg))
      \<longrightarrow> snd (register p c) = p)"
proof -
  have c1: "issubclass (cls_bases c) ''PageTypePlugin'' \<and> model c = Some m
      \<and> issubclass (model_bases m) ''UrlNode'' \<and> map_of (plugins p) (cls_name c) \<noteq> None
      \<longrightarrow> register p c
            = (Some (PageTypeAlreadyRegistered
                 (''['' @ cls_name c @ ''] a plugin with this name is already registered'')), p)"
    by (simp add: register_def Let_def del: not_None_eq)
  have c2: "\<not> issubclass (cls_bases c) ''PageTypePlugin''
      \<longrightarrow> register p c = (Some (AssertionError ''The plugin must inherit from `PageTypePlugin`''), p)"
    by (simp add: register_def)
  have c3: "issubclass (cls_bases c) ''PageTypePlugin'' \<and> model c = None
      \<longrightarrow> register p c = (Some (AssertionError ''The plugin has no model defined''), p)"
    by (simp add: register_def)
  have c4: "issubclass (cls_bases c) ''PageTypePlugin'' \<and> model c = Some m
      \<and> \<not> issubclass (model_bases m) ''UrlNode''
      \<longrightarrow> register p c = (Some (AssertionError ''The plugin model must inherit from `ContentItem`''), p)"
    by (simp add: register_def)
  have c5: "(\<exists>msg. fst (register p c) = Some (AssertionError msg))
        \<or> (\<exists>msg. fst (register p c) = Some (PageTypeAlreadyRegistered msg))
      \<longrightarrow> snd (register p c) = p"
  proof
    assume h: "(\<exists>msg. fst (register p c) = Some (AssertionError msg))
        \<or> (\<exists>msg. fst (register p c) = Some (PageTypeAlreadyRegistered msg))"
    obtain r p' where rp: "register p c = (r, p')" by (cases "register p c")
    with h obtain e where e: "r = Some e"
      "(\<exists>msg. e = AssertionError msg) \<or> (\<exists>msg. e = PageTypeAlreadyRegistered msg)"
      by auto
    from rp e(1) have "register p c = (Some e, p')" by simp
    from this e(2) have "p' = p" by (rule register_failure_unchanged)
    with rp show "snd (register p c) = p" by simp
  qed
  show ?thesis by (intro conjI c1 c2 c3 c4 c5)
qed

theorem register_failure_modes_witness:
  "issubclass (cls_bases FluentPagePlugin) ''PageTypePlugin'' \<and> model FluentPagePlugin = Some FluentPage
   \<and> issubclass (model_bases FluentPage) ''UrlNode''
   \<and> map_of (plugins fluent_pool) (cls_name FluentPagePlugin) \<noteq> None
   \<and> register fluent_pool FluentPagePlugin
       = (Some (PageTypeAlreadyRegistered
            ''[FluentPagePlugin] a plugin with this name is already registered''), fluent_pool)
   \<and> snd (register fluent_pool FluentPagePlugin) = fluent_pool"
proof -
  have h: "issubclass (cls_bases FluentPagePlugin) ''PageTypePlugin'' \<and> model FluentPagePlugin = Some FluentPage
      \<and> issubclass (model_bases FluentPage) ''UrlNode''
      \<and> map_of (plugins fluent_pool) (cls_name FluentPagePlugin) \<noteq> None"
    by (simp add: fluent_pool_eq) (simp add: plugin_defs)
  note t = register_failure_modes [of FluentPagePlugin FluentPage fluent_pool]
  from t have "issubclass (cls_bases FluentPagePlugin) ''PageTypePlugin'' \<and> model FluentPagePlugin = Some FluentPage
      \<and> issubclass (model_bases FluentPage) ''UrlNode''
      \<and> map_of (plugins fluent_pool) (cls_name FluentPagePlugin) \<noteq> None
      \<longrightarrow> register fluent_pool FluentPagePlugin
            = (Some (PageTypeAlreadyRegistered
                 (''['' @ cls_name FluentPagePlugin @ ''] a plugin with this name is already registered'')),
               fluent_pool)"
    by (elim conjE)
  from this h have "register fluent_pool FluentPagePlugin
            = (Some (PageTypeAlreadyRegistered
                 (''['' @ cls_name FluentPagePlugin @ ''] a plugin with this name is already registered'')),
               fluent_pool)"
    by (rule mp)
  then have r: "register fluent_pool FluentPagePlugin
       = (Some (PageTypeAlreadyRegistered
            ''[FluentPagePlugin] a plugin with this name is already registered''), fluent_pool)"
    by (simp add: PageTypePlugin_def FluentPagePlugin_def)
  then have s: "snd (register fluent_pool FluentPagePlugin) = fluent_pool" by simp
  from h r s show ?thesis by (intro conjI) (elim conjE, assumption)+
qed

subsection \<open>The registry invariant, and the response of the base class\<close>

lemma both_pool_all:
  "register_all PageTypePool_init [FluentPagePlugin, TextFilePlugin []] = Some both_pool"
proof -
  have 1: "register PageTypePool_init FluentPagePlugin = (None, fluent_pool)"
    by (simp add: fluent_pool_eq)
       (simp add: register_def admin_site_register_def PageTypePool_init_def Let_def
          PageTypePlugin_def FluentPagePlugin_def issubclass_def FluentPage_def)
  have 2: "fst (register fluent_pool (TextFilePlugin [])) = None"
    by (simp add: fluent_pool_eq)
       (simp add: register_def admin_site_register_def Let_def
          PageTypePlugin_def TextFilePlugin_def issubclass_def FluentPage_def TextFile_def)
  obtain q where q: "register fluent_pool (TextFilePlugin []) = (None, q)"
    using 2 by (cases "register fluent_pool (TextFilePlugin [])") simp
  have "both_pool = q"
    by (simp add: both_pool_def register_calls_def 1 q)
  with 1 q show ?thesis by simp
qed

lemma consistentD1: "registry_consistent p \<Longrightarrow> distinct (map fst (plugins p))"
  unfolding registry_consistent_def by (elim conjE)

lemma consistentD2: "registry_consistent p \<Longrightarrow> map_of (plugins p) n = Some c \<Longrightarrow> cls_name c = n"
  unfolding registry_consistent_def by blast

lemma consistentD3:
  "registry_consistent p \<Longrightarrow> plugin_for_model p m = Some n \<Longrightarrow>
     \<exists>c. map_of (plugins p) n = Some c \<and> model c = Some m"
  unfolding registry_consistent_def by blast

lemma one_to_oneD:
  "registry_one_to_one p \<Longrightarrow> map_of (plugins p) n = Some c \<Longrightarrow>
     \<exists>m. model c = Some m \<and> plugin_for_model p m = Some n"
  unfolding registry_one_to_one_def by blast

lemma register_calls_facts:
  "distinct (map fst (plugins (register_calls PageTypePool_init cs)))
   \<and> (\<forall>m n. plugin_for_model (register_calls PageTypePool_init cs) m = Some n \<longrightarrow>
         (\<exists>c. map_of (plugins (register_calls PageTypePool_init cs)) n = Some c
              \<and> cls_name c = n \<and> model c = Some m))"
proof -
  let ?q = "register_calls PageTypePool_init cs"
  have "registry_consistent PageTypePool_init" using init_consistent by (rule conjunct1)
  then have cq: "registry_consistent ?q" by (rule register_calls_consistent)
  have "\<exists>c. map_of (plugins ?q) n = Some c \<and> cls_name c = n \<and> model c = Some m"
    if h: "plugin_for_model ?q m = Some n" for m n
  proof -
    from consistentD3 [OF cq h] obtain c where c: "map_of (plugins ?q) n = Some c" "model c = Some m"
      by (elim exE conjE)
    from consistentD2 [OF cq c(1)] have "cls_name c = n" .
    with c show ?thesis by (intro exI [of _ c] conjI)
  qed
  then have "\<forall>m n. plugin_for_model ?q m = Some n \<longrightarrow>
         (\<exists>c. map_of (plugins ?q) n = Some c \<and> cls_name c = n \<and> model c = Some m)"
    by (intro allI impI)
  with consistentD1 [OF cq] show ?thesis by (rule conjI)
qed

lemma register_all_facts:
  assumes a: "register_all PageTypePool_init cs = Some p"
  shows "plugins p = map (\<lambda>c. (cls_name c, c)) cs
         \<and> distinct (map cls_name cs)
         \<and> (\<forall>m n. plugin_for_model p m = Some n \<longrightarrow>
               (\<exists>c. map_of (plugins p) n = Some c \<and> model c = Some m))
         \<and> (\<forall>n c. map_of (plugins p) n = Some c \<longrightarrow>
               (\<exists>m. model c = Some m \<and> plugin_for_model p m = Some n))
         \<and> (\<forall>n n' c c'. map_of (plugins p) n = Some c \<and> map_of (plugins p) n' = Some c'
               \<and> model c = model c' \<longrightarrow> n = n')"
proof -
  have i1: "registry_consistent PageTypePool_init" using init_consistent by (rule conjunct1)
  have i2: "registry_one_to_one PageTypePool_init" using init_consistent by (rule conjunct2)
  note r = register_all_invariant [OF i1 i2 a]
  from r have cp: "registry_consistent p" by (rule conjunct1)
  from r have "registry_one_to_one p
     \<and> plugins p = plugins PageTypePool_init @ map (\<lambda>c. (cls_name c, c)) cs" by (rule conjunct2)
  then have op: "registry_one_to_one p"
    and pl: "plugins p = plugins PageTypePool_init @ map (\<lambda>c. (cls_name c, c)) cs"
    by (rule conjunct1, rule conjunct2)
  have e: "plugins PageTypePool_init = []" by (simp add: PageTypePool_init_def)
  have d1: "plugins p = map (\<lambda>c. (cls_name c, c)) cs"
    by (simp only: pl e append_Nil)
  have "map fst (map (\<lambda>c. (cls_name c, c)) cs) = map cls_name cs" by (induction cs) simp_all
  with consistentD1 [OF cp] have d2: "distinct (map cls_name cs)" by (simp only: d1)
  have d3: "\<forall>m n. plugin_for_model p m = Some n \<longrightarrow>
               (\<exists>c. map_of (plugins p) n = Some c \<and> model c = Some m)"
    using consistentD3 [OF cp] by (intro allI impI)
  have d4: "\<forall>n c. map_of (plugins p) n = Some c \<longrightarrow>
               (\<exists>m. model c = Some m \<and> plugin_for_model p m = Some n)"
    using one_to_oneD [OF op] by (intro allI impI)
  have d5: "\<forall>n n' c c'. map_of (plugins p) n = Some c \<and> map_of (plugins p) n' = Some c'
               \<and> model c = model c' \<longrightarrow> n = n'"
  proof (intro allI impI, elim conjE)
    fix n n' c c'
    assume n: "map_of (plugins p) n = Some c" and n': "map_of (plugins p) n' = Some c'"
      and e: "model c = model c'"
    from one_to_oneD [OF op n] obtain m where m: "model c = Some m" "plugin_for_model p m = Some n"
      by (elim exE conjE)
    from one_to_oneD [OF op n'] obtain m' where m': "model c' = Some m'" "plugin_for_model p m' = Some n'"
      by (elim exE conjE)
    from e m(1) m'(1) have "m = m'" by simp
    with m(2) m'(2) show "n = n'" by simp
  qed
  show ?thesis by (intro conjI d1 d2 d3 d4 d5)
qed

text \<open>
  What the registry does keep. After any sequence of \<open>register\<close> calls on a new pool,
  whatever each of them raised, the name mapping has one entry per name, stored under
  the name of the plugin's class, and the model mapping sends a model to one name, that
  of a registered plugin bound to this model. While every registration of the sequence
  succeeds, the registered plugins are the registered classes in order, their names are
  pairwise distinct, and every registered plugin is the one its model maps to, so no
  two of them share a model.
\<close>

theorem registry_invariant:
  "distinct (map fst (plugins (register_calls PageTypePool_init cs)))
   \<and> (\<forall>m n. plugin_for_model (register_calls PageTypePool_init cs) m = Some n \<longrightarrow>
         (\<exists>c. map_of (plugins (register_calls PageTypePool_init cs)) n = Some c
              \<and> cls_name c = n \<and> model c = Some m))
   \<and> (register_all PageTypePool_init cs = Some p \<longrightarrow>
         plugins p = map (\<lambda>c. (cls_name c, c)) cs
         \<and> distinct (map cls_name cs)
         \<and> (\<forall>m n. plugin_for_model p m = Some n \<longrightarrow>
               (\<exists>c. map_of (plugins p) n = Some c \<and> model c = Some m))
         \<and> (\<forall>n c. map_of (plugins p) n = Some c \<longrightarrow>
               (\<exists>m. model c = Some m \<and> plugin_for_model p m = Some n))
         \<and> (\<forall>n n' c c'. map_of (plugins p) n = Some c \<and> map_of (plugins p) n' = Some c'
               \<and> model c = model c' \<longrightarrow> n = n'))"
proof -
  note a = register_calls_facts [of cs]
  from a have c1: "distinct (map fst (plugins (register_calls PageTypePool_init cs)))"
    by (rule conjunct1)
  from a have c2: "\<forall>m n. plugin_for_model (register_calls PageTypePool_init cs) m = Some n \<longrightarrow>
         (\<exists>c. map_of (plugins (register_calls PageTypePool_init cs)) n = Some c
              \<and> cls_name c = n \<and> model c = Some m)"
    by (rule conjunct2)
  have c3: "register_all PageTypePool_init cs = Some p \<longrightarrow>
         plugins p = map (\<lambda>c. (cls_name c, c)) cs
         \<and> distinct (map cls_name cs)
         \<and> (\<forall>m n. plugin_for_model p m = Some n \<longrightarrow>
               (\<exists>c. map_of (plugins p) n = Some c \<and> model c = Some m))
         \<and> (\<forall>n c. map_of (plugins p) n = Some c \<longrightarrow>
               (\<exists>m. model c = Some m \<and> plugin_for_model p m = Some n))
         \<and> (\<forall>n n' c c'. map_of (plugins p) n = Some c \<and> map_of (plugins p) n' = Some c'
               \<and> model c = model c' \<longrightarrow> n = n')"
    by (rule impI) (rule register_all_facts)
  show ?thesis by (intro conjI c1 c2 c3)
qed

theorem registry_invariant_witness:
  "register_all PageTypePool_init [FluentPagePlugin, TextFilePlugin []] = Some both_pool
   \<and> plugins both_pool
       = [(''FluentPagePlugin'', FluentPagePlugin), (''TextFilePlugin'', TextFilePlugin [])]
   \<and> distinct (map cls_name [FluentPagePlugin, TextFilePlugin []])"
proof -
  note a = both_pool_all
  note t = registry_invariant [of "[FluentPagePlugin, TextFilePlugin []]" both_pool]
  from t have "register_all PageTypePool_init [FluentPagePlugin, TextFilePlugin []] = Some both_pool
      \<longrightarrow> plugins both_pool = map (\<lambda>c. (cls_name c, c)) [FluentPagePlugin, TextFilePlugin []]
        \<and> distinct (map cls_name [FluentPagePlugin, TextFilePlugin []])
        \<and> (\<forall>m n. plugin_for_model both_pool m = Some n \<longrightarrow>
               (\<exists>c. map_of (plugins both_pool) n = Some c \<and> model c = Some m))
        \<and> (\<forall>n c. map_of (plugins both_pool) n = Some c \<longrightarrow>
               (\<exists>m. model c = Some m \<and> plugin_for_model both_pool m = Some n))
        \<and> (\<forall>n n' c c'. map_of (plugins both_pool) n = Some c \<and> map_of (plugins both_pool) n' = Some c'
               \<and> model c = model c' \<longrightarrow> n = n')"
    by (elim conjE)
  from this a have full: "plugins both_pool = map (\<lambda>c. (cls_name c, c)) [FluentPagePlugin, TextFilePlugin []]
        \<and> distinct (map cls_name [FluentPagePlugin, TextFilePlugin []])
        \<and> (\<forall>m n. plugin_for_model both_pool m = Some n \<longrightarrow>
               (\<exists>c. map_of (plugins both_pool) n = Some c \<and> model c = Some m))
        \<and> (\<forall>n c. map_of (plugins both_pool) n = Some c \<longrightarrow>
               (\<exists>m. model c = Some m \<and> plugin_for_model both_pool m = Some n))
        \<and> (\<forall>n n' c c'. map_of (plugins both_pool) n = Some c \<and> map_of (plugins both_pool) n' = Some c'
               \<and> model c = model c' \<longrightarrow> n = n')"
    by (rule mp)
  from full have b1: "plugins both_pool = map (\<lambda>c. (cls_name c, c)) [FluentPagePlugin, TextFilePlugin []]"
    by (elim conjE)
  from full have b2: "distinct (map cls_name [FluentPagePlugin, TextFilePlugin []])"
    by (elim conjE)
  from b1 have b3: "plugins both_pool
       = [(''FluentPagePlugin'', FluentPagePlugin), (''TextFilePlugin'', TextFilePlugin [])]"
    by (simp add: PageTypePlugin_def FluentPagePlugin_def TextFilePlugin_def)
  from a b3 b2 show ?thesis by (intro conjI)
qed

text \<open>
  Claim C7. The \<open>get_response\<close> of \<open>PageTypePlugin\<close>, which a plugin runs unless it
  overrides the method, raises \<open>ImproperlyConfigured\<close> with a message that starts with
  the name of the plugin's class when \<open>get_render_template\<close> gives no template
  (\<open>None\<close> or the empty string); otherwise it builds the plugin's response class from
  the request, that template and the mapping \<open>get_context\<close> returns.
\<close>

theorem base_get_response_contract:
  "(get_response_ov self = None \<longrightarrow>
      get_response self request pg kw = base_get_response self request pg kw)
   \<and> (get_render_template self request pg kw = None \<or> get_render_template self request pg kw = Some []
      \<longrightarrow> base_get_response self request pg kw
            = Inl (ImproperlyConfigured (configuration_message (cls_name self))))
   \<and> take (length (cls_name self)) (configuration_message (cls_name self)) = cls_name self
   \<and> (get_render_template self request pg kw = Some t \<and> t \<noteq> []
      \<longrightarrow> base_get_response self request pg kw
            = Inr (ClassResponse (response_class self) request t (get_context self request pg kw)))"
proof -
  have c1: "get_response_ov self = None \<longrightarrow>
      get_response self request pg kw = base_get_response self request pg kw"
    by (simp add: get_response_def)
  have c2: "get_render_template self request pg kw = None \<or> get_render_template self request pg kw = Some []
      \<longrightarrow> base_get_response self request pg kw
            = Inl (ImproperlyConfigured (configuration_message (cls_name self)))"
    by (auto simp: base_get_response_def)
  have c3: "take (length (cls_name self)) (configuration_message (cls_name self)) = cls_name self"
    by (simp add: configuration_message_def)
  have c4: "get_render_template self request pg kw = Some t \<and> t \<noteq> []
      \<longrightarrow> base_get_response self request pg kw
            = Inr (ClassResponse (response_class self) request t (get_context self request pg kw))"
    by (simp add: base_get_response_def Let_def)
  show ?thesis by (intro conjI c1 c2 c3 c4)
qed

theorem base_get_response_contract_witness:
  "get_response_ov PageTypePlugin = None
   \<and> get_render_template PageTypePlugin ''GET /'' demo_page Map.empty = None
   \<and> get_response PageTypePlugin ''GET /'' demo_page Map.empty
       = Inl (ImproperlyConfigured (configuration_message ''PageTypePlugin''))
   \<and> get_render_template FluentPagePlugin ''GET /'' demo_page Map.empty = Some ''layouts/default.html''
   \<and> get_response FluentPagePlugin ''GET /'' demo_page Map.empty
       = Inr (ClassResponse ''TemplateResponse'' ''GET /'' ''layouts/default.html''
                [''page'' \<mapsto> PageObj demo_page, ''site'' \<mapsto> SiteObj ''example.org''])"
proof -
  note t = base_get_response_contract [of PageTypePlugin "''GET /''" demo_page Map.empty "[]"]
  note u = base_get_response_contract
    [of FluentPagePlugin "''GET /''" demo_page Map.empty "''layouts/default.html''"]
  have h1: "get_response_ov PageTypePlugin = None"
    and h2: "get_render_template PageTypePlugin ''GET /'' demo_page Map.empty = None"
    by (simp_all add: PageTypePlugin_def get_render_template_def)
  have h3: "get_response_ov FluentPagePlugin = None"
    and h4: "get_render_template FluentPagePlugin ''GET /'' demo_page Map.empty = Some ''layouts/default.html''"
    by (simp_all add: PageTypePlugin_def FluentPagePlugin_def get_render_template_def demo_page_def)
  from t h1 h2 have "get_response PageTypePlugin ''GET /'' demo_page Map.empty
       = Inl (ImproperlyConfigured (configuration_message (cls_name PageTypePlugin)))"
    by simp
  then have a: "get_response PageTypePlugin ''GET /'' demo_page Map.empty
       = Inl (ImproperlyConfigured (configuration_message ''PageTypePlugin''))"
    by (simp add: PageTypePlugin_def)
  from u h3 h4 have "get_response FluentPagePlugin ''GET /'' demo_page Map.empty
       = Inr (ClassResponse (response_class FluentPagePlugin) ''GET /'' ''layouts/default.html''
               (get_context FluentPagePlugin ''GET /'' demo_page Map.empty))"
    by simp
  then have b: "get_response FluentPagePlugin ''GET /'' demo_page Map.empty
       = Inr (ClassResponse ''TemplateResponse'' ''GET /'' ''layouts/default.html''
                [''page'' \<mapsto> PageObj demo_page, ''site'' \<mapsto> SiteObj ''example.org''])"
    by (simp add: PageTypePlugin_def FluentPagePlugin_def get_context_def demo_page_def)
  from h1 h2 a h4 b show ?thesis by (intro conjI)
qed

section \<open>Properties of discovery\<close>

subsection \<open>Running a module, importing a module\<close>

lemma exec_module_detected: "detected (snd (exec_module ss p)) = detected p"
proof (induction ss arbitrary: p)
  case Nil
  then show ?case by simp
next
  case (Cons s ss)
  show ?case
  proof (cases s)
    case (Register c)
    obtain r q where q: "register p c = (r, q)" by (cases "register p c")
    have dq: "detected q = detected p" using register_detected [of p c] q by simp
    show ?thesis
    proof (cases r)
      case None
      with Register q have "exec_module (s # ss) p = exec_module ss q" by simp
      with Cons.IH [of q] dq show ?thesis by simp
    next
      case (Some e)
      with Register q have "exec_module (s # ss) p = (Some e, q)" by simp
      with dq show ?thesis by simp
    qed
  next
    case (FailingImport msg)
    then show ?thesis by simp
  qed
qed

lemma exec_module_calls: "\<exists>cs. snd (exec_module ss p) = register_calls p cs"
proof (induction ss arbitrary: p)
  case Nil
  have "snd (exec_module [] p) = register_calls p []" by (simp add: register_calls_def)
  then show ?case by (rule exI)
next
  case (Cons s ss)
  show ?case
  proof (cases s)
    case (Register c)
    obtain r q where q: "register p c = (r, q)" by (cases "register p c")
    show ?thesis
    proof (cases r)
      case None
      with Register q have e: "exec_module (s # ss) p = exec_module ss q" by simp
      from Cons.IH [of q] obtain cs where "snd (exec_module ss q) = register_calls q cs"
        by (rule exE)
      with e q have "snd (exec_module (s # ss) p) = register_calls p (c # cs)"
        by (simp add: register_calls_def)
      then show ?thesis by (rule exI)
    next
      case (Some e)
      with Register q have "snd (exec_module (s # ss) p) = register_calls p [c]"
        by (simp add: register_calls_def)
      then show ?thesis by (rule exI)
    qed
  next
    case (FailingImport msg)
    then have "snd (exec_module (s # ss) p) = register_calls p []"
      by (simp add: register_calls_def)
    then show ?thesis by (rule exI)
  qed
qed

lemma exec_module_raises:
  "fst (exec_module ss p) \<noteq> Some (PageTypeNotFound msg)"
proof (induction ss arbitrary: p)
  case Nil
  then show ?case by simp
next
  case (Cons s ss)
  show ?case
  proof (cases s)
    case (Register c)
    obtain r q where q: "register p c = (r, q)" by (cases "register p c")
    show ?thesis
    proof (cases r)
      case None
      with Register q have "exec_module (s # ss) p = exec_module ss q" by simp
      with Cons.IH [of q] show ?thesis by simp
    next
      case (Some e)
      with Register q have x: "exec_module (s # ss) p = (Some e, q)" by simp
      from register_raises [of p c msg] q Some have "e \<noteq> PageTypeNotFound msg" by simp
      with x show ?thesis by simp
    qed
  next
    case (FailingImport m)
    then show ?thesis by simp
  qed
qed

lemma import_module_facts:
  "detected (pool (snd (import_module name a w))) = detected (pool w)
   \<and> installed_apps (snd (import_module name a w)) = installed_apps w
   \<and> import_calls (snd (import_module name a w)) = import_calls w @ [app_name a @ name]
   \<and> (\<exists>cs. pool (snd (import_module name a w)) = register_calls (pool w) cs)
   \<and> fst (import_module name a w) \<noteq> Some (PageTypeNotFound msg)"
proof -
  let ?w = "w\<lparr>import_calls := import_calls w @ [app_name a @ name]\<rparr>"
  have nil: "pool w = register_calls (pool w) []" by (simp add: register_calls_def)
  show ?thesis
  proof (cases "app_name a @ name \<in> set (sys_modules w)")
    case True
    then have "import_module name a w = (None, ?w)" by (simp add: import_module_def Let_def)
    with nil show ?thesis by auto
  next
    case False
    show ?thesis
    proof (cases "map_of (submodules a) (tl name)")
      case None
      with False have "import_module name a w
          = (Some (ImportError (''No module named '' @ tl name)), ?w)"
        by (simp add: import_module_def Let_def)
      with nil show ?thesis by auto
    next
      case (Some body)
      obtain r q where q: "exec_module body (pool w) = (r, q)" by (cases "exec_module body (pool w)")
      from exec_module_detected [of body "pool w"] q have dq: "detected q = detected (pool w)" by simp
      from exec_module_calls [of body "pool w"] q obtain cs where cs: "q = register_calls (pool w) cs"
        by auto
      from exec_module_raises [of body "pool w" msg] q have nr: "r \<noteq> Some (PageTypeNotFound msg)" by simp
      show ?thesis
      proof (cases r)
        case None
        with False Some q have "import_module name a w
            = (None, ?w\<lparr>pool := q, sys_modules := sys_modules w @ [app_name a @ name]\<rparr>)"
          by (simp add: import_module_def Let_def)
        with dq cs show ?thesis by auto
      next
        case (Some e)
        with False \<open>map_of (submodules a) (tl name) = Some body\<close> q
        have "import_module name a w = (Some e, ?w\<lparr>pool := q\<rparr>)"
          by (simp add: import_module_def Let_def)
        with dq cs nr Some show ?thesis by auto
      qed
    qed
  qed
qed

subsection \<open>The scan and the accessors\<close>

lemma scan_Cons:
  assumes "import_module (''.'' @ s) a w = (r, w1)"
  shows "import_apps_submodule s (a # apps) w
     = (if r = None \<or> (\<exists>m. r = Some (ImportError m) \<and> py_in s m)
        then import_apps_submodule s apps w1 else (r, w1))"
proof (cases r)
  case None
  with assms show ?thesis by simp
next
  case (Some e)
  with assms show ?thesis by (cases e) simp_all
qed

lemma register_calls_append:
  "register_calls (register_calls p cs) cs' = register_calls p (cs @ cs')"
  by (simp add: register_calls_def)

lemma scan_facts:
  "detected (pool (snd (import_apps_submodule s apps w))) = detected (pool w)
   \<and> installed_apps (snd (import_apps_submodule s apps w)) = installed_apps w
   \<and> (\<exists>ext. import_calls (snd (import_apps_submodule s apps w)) = import_calls w @ ext)
   \<and> (\<exists>cs. pool (snd (import_apps_submodule s apps w)) = register_calls (pool w) cs)
   \<and> fst (import_apps_submodule s apps w) \<noteq> Some (PageTypeNotFound msg)"
proof (induction apps arbitrary: w)
  case Nil
  have "import_calls w = import_calls w @ []" "pool w = register_calls (pool w) []"
    by (simp_all add: register_calls_def)
  then show ?case by auto
next
  case (Cons a apps)
  obtain r w1 where i: "import_module (''.'' @ s) a w = (r, w1)"
    by (cases "import_module (''.'' @ s) a w")
  note f = import_module_facts [of "''.'' @ s" a w msg]
  from f i have d1: "detected (pool w1) = detected (pool w)"
    and a1: "installed_apps w1 = installed_apps w"
    and l1: "import_calls w1 = import_calls w @ [app_name a @ ''.'' @ s]"
    and n1: "r \<noteq> Some (PageTypeNotFound msg)"
    by simp_all
  from f i obtain cs where c1: "pool w1 = register_calls (pool w) cs" by auto
  show ?case
  proof (cases "r = None \<or> (\<exists>m. r = Some (ImportError m) \<and> py_in s m)")
    case True
    with scan_Cons [OF i, of apps]
    have e: "import_apps_submodule s (a # apps) w = import_apps_submodule s apps w1" by simp
    note ih = Cons.IH [of w1]
    from ih obtain ext where x: "import_calls (snd (import_apps_submodule s apps w1)) = import_calls w1 @ ext"
      by (elim conjE exE)
    from ih obtain cs' where y: "pool (snd (import_apps_submodule s apps w1)) = register_calls (pool w1) cs'"
      by (elim conjE exE)
    from x l1 have x': "import_calls (snd (import_apps_submodule s apps w1))
        = import_calls w @ ([app_name a @ ''.'' @ s] @ ext)" by simp
    from y c1 have y': "pool (snd (import_apps_submodule s apps w1)) = register_calls (pool w) (cs @ cs')"
      by (simp add: register_calls_append)
    from ih have za: "detected (pool (snd (import_apps_submodule s apps w1))) = detected (pool w1)"
      by (elim conjE)
    from ih have zb: "installed_apps (snd (import_apps_submodule s apps w1)) = installed_apps w1"
      by (elim conjE)
    from ih have zc: "fst (import_apps_submodule s apps w1) \<noteq> Some (PageTypeNotFound msg)"
      by (elim conjE)
    from za d1 have za': "detected (pool (snd (import_apps_submodule s apps w1))) = detected (pool w)"
      by simp
    from zb a1 have zb': "installed_apps (snd (import_apps_submodule s apps w1)) = installed_apps w"
      by simp
    have ex1: "\<exists>ext. import_calls (snd (import_apps_submodule s apps w1)) = import_calls w @ ext"
      using x' by (rule exI)
    have ex2: "\<exists>cs. pool (snd (import_apps_submodule s apps w1)) = register_calls (pool w) cs"
      using y' by (rule exI)
    have "detected (pool (snd (import_apps_submodule s apps w1))) = detected (pool w)
       \<and> installed_apps (snd (import_apps_submodule s apps w1)) = installed_apps w
       \<and> (\<exists>ext. import_calls (snd (import_apps_submodule s apps w1)) = import_calls w @ ext)
       \<and> (\<exists>cs. pool (snd (import_apps_submodule s apps w1)) = register_calls (pool w) cs)
       \<and> fst (import_apps_submodule s apps w1) \<noteq> Some (PageTypeNotFound msg)"
      by (intro conjI za' zb' ex1 ex2 zc)
    then show ?thesis unfolding e .
  next
    case False
    with scan_Cons [OF i, of apps]
    have e: "import_apps_submodule s (a # apps) w = (r, w1)" by simp
    have ex1: "\<exists>ext. import_calls w1 = import_calls w @ ext" using l1 by (rule exI)
    have ex2: "\<exists>cs. pool w1 = register_calls (pool w) cs" using c1 by (rule exI)
    have "detected (pool (snd (r, w1))) = detected (pool w)
       \<and> installed_apps (snd (r, w1)) = installed_apps w
       \<and> (\<exists>ext. import_calls (snd (r, w1)) = import_calls w @ ext)
       \<and> (\<exists>cs. pool (snd (r, w1)) = register_calls (pool w) cs)
       \<and> fst (r, w1) \<noteq> Some (PageTypeNotFound msg)"
      unfolding fst_conv snd_conv by (intro conjI d1 a1 ex1 ex2 n1)
    then show ?thesis unfolding e .
  qed
qed

lemma scan_log_first:
  "\<exists>ext. import_calls (snd (import_apps_submodule s (a # apps) w))
     = import_calls w @ [app_name a @ ''.'' @ s] @ ext"
proof -
  obtain r w1 where i: "import_module (''.'' @ s) a w = (r, w1)"
    by (cases "import_module (''.'' @ s) a w")
  from import_module_facts [of "''.'' @ s" a w "[]"] i
  have l1: "import_calls w1 = import_calls w @ [app_name a @ ''.'' @ s]" by simp
  show ?thesis
  proof (cases "r = None \<or> (\<exists>m. r = Some (ImportError m) \<and> py_in s m)")
    case True
    with scan_Cons [OF i, of apps]
    have e: "import_apps_submodule s (a # apps) w = import_apps_submodule s apps w1" by simp
    from scan_facts [of s apps w1 "[]"] obtain ext where
      "import_calls (snd (import_apps_submodule s apps w1)) = import_calls w1 @ ext"
      by (elim conjE exE)
    with l1 e have "import_calls (snd (import_apps_submodule s (a # apps) w))
        = import_calls w @ [app_name a @ ''.'' @ s] @ ext" by simp
    then show ?thesis by (rule exI)
  next
    case False
    with scan_Cons [OF i, of apps]
    have "import_apps_submodule s (a # apps) w = (r, w1)" by simp
    with l1 have "import_calls (snd (import_apps_submodule s (a # apps) w))
        = import_calls w @ [app_name a @ ''.'' @ s] @ []" by simp
    then show ?thesis by (rule exI)
  qed
qed

lemma import_plugins_detected: "detected (pool w) \<Longrightarrow> import_plugins w = (None, w)"
  by (simp add: import_plugins_def)

lemma import_plugins_scan:
  assumes "\<not> detected (pool w)"
    and "import_apps_submodule ''page_type_plugins'' (installed_apps w) w = (r, w1)"
  shows "import_plugins w
     = (case r of None \<Rightarrow> (None, w1\<lparr>pool := (pool w1)\<lparr>detected := True\<rparr>\<rparr>) | Some e \<Rightarrow> (Some e, w1))"
  using assms by (cases r) (simp_all add: import_plugins_def)

lemma import_plugins_ok:
  assumes "fst (import_plugins w) = None"
  shows "detected (pool (snd (import_plugins w)))"
proof (cases "detected (pool w)")
  case True
  then show ?thesis by (simp add: import_plugins_detected)
next
  case False
  obtain r w1 where s: "import_apps_submodule ''page_type_plugins'' (installed_apps w) w = (r, w1)"
    by (cases "import_apps_submodule ''page_type_plugins'' (installed_apps w) w")
  from import_plugins_scan [OF False s] assms show ?thesis by (cases r) simp_all
qed

lemma import_plugins_raises:
  assumes "fst (import_plugins w) = Some e"
  shows "\<not> detected (pool w) \<and> \<not> detected (pool (snd (import_plugins w)))
     \<and> installed_apps (snd (import_plugins w)) = installed_apps w
     \<and> import_apps_submodule ''page_type_plugins'' (installed_apps w) w
         = (Some e, snd (import_plugins w))"
proof (cases "detected (pool w)")
  case True
  with assms show ?thesis by (simp add: import_plugins_detected)
next
  case False
  obtain r w1 where s: "import_apps_submodule ''page_type_plugins'' (installed_apps w) w = (r, w1)"
    by (cases "import_apps_submodule ''page_type_plugins'' (installed_apps w) w")
  from import_plugins_scan [OF False s] assms have r: "r = Some e" and ip: "import_plugins w = (Some e, w1)"
    by (cases r; simp)+
  from scan_facts [of "''page_type_plugins''" "installed_apps w" w "[]"] s
  have "detected (pool w1) = detected (pool w)" "installed_apps w1 = installed_apps w" by simp_all
  with False s r ip show ?thesis by simp
qed

lemma import_plugins_no_not_found: "fst (import_plugins w) \<noteq> Some (PageTypeNotFound msg)"
proof (cases "detected (pool w)")
  case True
  then show ?thesis by (simp add: import_plugins_detected)
next
  case False
  obtain r w1 where s: "import_apps_submodule ''page_type_plugins'' (installed_apps w) w = (r, w1)"
    by (cases "import_apps_submodule ''page_type_plugins'' (installed_apps w) w")
  from scan_facts [of "''page_type_plugins''" "installed_apps w" w msg] s
  have "r \<noteq> Some (PageTypeNotFound msg)" by simp
  with import_plugins_scan [OF False s] show ?thesis by (cases r) simp_all
qed

lemma run_call_world: "run_call w c = snd (import_plugins w)"
proof -
  obtain r w1 where i: "import_plugins w = (r, w1)" by (cases "import_plugins w")
  show ?thesis
  proof (cases c)
    case GetPlugins
    with i show ?thesis by (cases r) (simp_all add: get_plugins_def)
  next
    case GetModelClasses
    with i show ?thesis by (cases r) (simp_all add: get_model_classes_def)
  next
    case (GetPluginByModel mc)
    with i show ?thesis
      by (cases r) (simp_all add: get_plugin_by_model_def split: option.splits)
  next
    case (GetModelAdmin mc)
    with i show ?thesis
      by (cases r) (simp_all add: get_model_admin_def split: option.splits)
  qed
qed

lemma run_calls_detected: "detected (pool w) \<Longrightarrow> run_calls w cs = w"
proof (induction cs)
  case Nil
  then show ?case by (simp add: run_calls_def)
next
  case (Cons c cs)
  from Cons.prems have "run_call w c = w" by (simp add: run_call_world import_plugins_detected)
  with Cons show ?case by (simp add: run_calls_def)
qed

subsection \<open>How often the scan runs\<close>

lemmas world_defs = broken_world_def half_world_def good_world_def new_world_def
  fluentpage_app_def textfile_app_def admin_app_def broken_app_def helper_app_def
  PageTypePool_init_def

lemmas scan_defs = import_plugins_def import_module_def register_def admin_site_register_def
  Let_def issubclass_def

lemma not_in_payments: "\<not> py_in ''page_type_plugins'' ''No module named payments''"
  by simp

lemma in_missing: "py_in ''page_type_plugins'' ''No module named page_type_plugins''"
  by simp

lemma broken_import:
  "import_plugins (broken_world\<lparr>import_calls := l\<rparr>)
     = (Some (ImportError ''No module named payments''),
        broken_world\<lparr>import_calls := l @ [''shop.page_type_plugins'']\<rparr>)"
  by (simp add: world_defs scan_defs)

lemma broken_twice:
  "run_calls broken_world [GetPlugins, GetPlugins]
     = broken_world\<lparr>import_calls := [''shop.page_type_plugins'', ''shop.page_type_plugins'']\<rparr>"
proof -
  have e: "broken_world = broken_world\<lparr>import_calls := []\<rparr>" by (simp add: world_defs)
  have 1: "run_call broken_world GetPlugins = broken_world\<lparr>import_calls := [''shop.page_type_plugins'']\<rparr>"
    using broken_import [of "[]"] by (simp add: run_call_world e [symmetric])
  have 2: "run_call (broken_world\<lparr>import_calls := [''shop.page_type_plugins'']\<rparr>) GetPlugins
      = broken_world\<lparr>import_calls := [''shop.page_type_plugins'', ''shop.page_type_plugins'']\<rparr>"
    using broken_import [of "[''shop.page_type_plugins'']"] by (simp add: run_call_world)
  show ?thesis by (simp only: run_calls_def foldl.simps 1 2)
qed

theorem discovery_rescans_counterexample:
  "import_calls (run_calls broken_world [GetPlugins, GetPlugins])
     = [''shop.page_type_plugins'', ''shop.page_type_plugins'']
   \<and> detected (pool (run_calls broken_world [GetPlugins, GetPlugins])) = False"
  by (simp add: broken_twice) (simp add: world_defs)

lemma import_plugins_log:
  assumes nd: "\<not> detected (pool w)" and apps: "installed_apps w = a # apps"
  shows "\<exists>ext. import_calls (snd (import_plugins w))
     = import_calls w @ [app_name a @ ''.page_type_plugins''] @ ext"
proof -
  obtain r w1 where s: "import_apps_submodule ''page_type_plugins'' (a # apps) w = (r, w1)"
    by (cases "import_apps_submodule ''page_type_plugins'' (a # apps) w")
  from scan_log_first [of "''page_type_plugins''" a apps w] s obtain ext where
    l: "import_calls w1 = import_calls w @ [app_name a @ ''.page_type_plugins''] @ ext"
    by auto
  from s apps have s': "import_apps_submodule ''page_type_plugins'' (installed_apps w) w = (r, w1)"
    by simp
  from import_plugins_scan [OF nd s'] have "import_calls (snd (import_plugins w)) = import_calls w1"
    by (cases r) simp_all
  with l have "import_calls (snd (import_plugins w))
     = import_calls w @ [app_name a @ ''.page_type_plugins''] @ ext" by simp
  then show ?thesis by (rule exI)
qed

lemma failed_scan_apps:
  assumes "fst (import_plugins w) = Some e"
  shows "\<exists>a apps. installed_apps w = a # apps"
proof (cases "installed_apps w")
  case Nil
  from import_plugins_raises [OF assms]
  have "import_apps_submodule ''page_type_plugins'' (installed_apps w) w
         = (Some e, snd (import_plugins w))"
    by (elim conjE)
  with Nil show ?thesis by simp
next
  case (Cons a apps)
  then show ?thesis by (intro exI)
qed

lemma good_import:
  "fst (import_plugins good_world) = None
   \<and> import_calls (snd (import_plugins good_world))
       = [''django.contrib.admin.page_type_plugins'',
          ''fluent_pages.pagetypes.fluentpage.page_type_plugins'',
          ''fluent_pages.pagetypes.textfile.page_type_plugins'']
   \<and> map fst (plugins (pool (snd (import_plugins good_world))))
       = [''FluentPagePlugin'', ''TextFilePlugin'']"
  by (simp add: world_defs scan_defs plugin_defs)

lemma scan_complete_log:
  "fst (import_apps_submodule s apps w) = None \<Longrightarrow>
     import_calls (snd (import_apps_submodule s apps w))
       = import_calls w @ map (\<lambda>a. app_name a @ ''.'' @ s) apps"
proof (induction apps arbitrary: w)
  case Nil
  then show ?case by simp
next
  case (Cons a apps)
  obtain r w1 where i: "import_module (''.'' @ s) a w = (r, w1)"
    by (cases "import_module (''.'' @ s) a w")
  from import_module_facts [of "''.'' @ s" a w "[]"] i
  have l1: "import_calls w1 = import_calls w @ [app_name a @ ''.'' @ s]" by simp
  show ?case
  proof (cases "r = None \<or> (\<exists>m. r = Some (ImportError m) \<and> py_in s m)")
    case True
    with scan_Cons [OF i, of apps]
    have e: "import_apps_submodule s (a # apps) w = import_apps_submodule s apps w1" by simp
    with Cons.prems have "fst (import_apps_submodule s apps w1) = None" by simp
    then have "import_calls (snd (import_apps_submodule s apps w1))
        = import_calls w1 @ map (\<lambda>a. app_name a @ ''.'' @ s) apps"
      by (rule Cons.IH)
    with l1 e show ?thesis by simp
  next
    case False
    with scan_Cons [OF i, of apps]
    have "import_apps_submodule s (a # apps) w = (r, w1)" by simp
    with Cons.prems have "r = None" by simp
    with False show ?thesis by simp
  qed
qed

lemma import_plugins_complete_log:
  assumes nd: "\<not> detected (pool w)" and ok: "fst (import_plugins w) = None"
  shows "import_calls (snd (import_plugins w))
     = import_calls w @ map (\<lambda>a. app_name a @ ''.page_type_plugins'') (installed_apps w)"
proof -
  obtain r w1 where s: "import_apps_submodule ''page_type_plugins'' (installed_apps w) w = (r, w1)"
    by (cases "import_apps_submodule ''page_type_plugins'' (installed_apps w) w")
  from import_plugins_scan [OF nd s] ok have r: "r = None" by (cases r) simp_all
  with s have "fst (import_apps_submodule ''page_type_plugins'' (installed_apps w) w) = None"
    by simp
  from scan_complete_log [OF this] s
  have "import_calls w1
     = import_calls w @ map (\<lambda>a. app_name a @ ''.page_type_plugins'') (installed_apps w)"
    by simp
  with import_plugins_scan [OF nd s] r show ?thesis by simp
qed

lemma import_plugins_unfold:
  assumes "\<not> detected (pool w)"
  shows "import_plugins w
     = (case import_apps_submodule ''page_type_plugins'' (installed_apps w) w of
          (None, w1) \<Rightarrow> (None, w1\<lparr>pool := (pool w1)\<lparr>detected := True\<rparr>\<rparr>)
        | (Some e, w1) \<Rightarrow> (Some e, w1))"
proof -
  obtain r w1 where s: "import_apps_submodule ''page_type_plugins'' (installed_apps w) w = (r, w1)"
    by (cases "import_apps_submodule ''page_type_plugins'' (installed_apps w) w")
  from import_plugins_scan [OF assms s] s show ?thesis by (cases r) simp_all
qed

lemma failed_scan_next:
  assumes f: "fst (import_plugins w) = Some e"
  shows "\<not> detected (pool (snd (import_plugins w)))
     \<and> installed_apps (snd (import_plugins w)) = installed_apps w
     \<and> import_plugins (snd (import_plugins w))
         = (case import_apps_submodule ''page_type_plugins'' (installed_apps w) (snd (import_plugins w)) of
              (None, w1) \<Rightarrow> (None, w1\<lparr>pool := (pool w1)\<lparr>detected := True\<rparr>\<rparr>)
            | (Some e', w1) \<Rightarrow> (Some e', w1))
     \<and> (\<exists>a apps ext. installed_apps w = a # apps
           \<and> import_calls (snd (import_plugins (snd (import_plugins w))))
               = import_calls (snd (import_plugins w)) @ [app_name a @ ''.page_type_plugins''] @ ext)"
proof -
  let ?w' = "snd (import_plugins w)"
  from import_plugins_raises [OF f] have nd': "\<not> detected (pool ?w')" by (elim conjE)
  from import_plugins_raises [OF f] have ia: "installed_apps ?w' = installed_apps w" by (elim conjE)
  from failed_scan_apps [OF f] obtain a apps where ap: "installed_apps w = a # apps"
    by (elim exE)
  from ia ap have ap': "installed_apps ?w' = a # apps" by simp
  from import_plugins_log [OF nd' ap'] obtain ext where
    "import_calls (snd (import_plugins ?w'))
       = import_calls ?w' @ [app_name a @ ''.page_type_plugins''] @ ext"
    by (elim exE)
  with ap have l: "\<exists>a apps ext. installed_apps w = a # apps
           \<and> import_calls (snd (import_plugins ?w'))
               = import_calls ?w' @ [app_name a @ ''.page_type_plugins''] @ ext"
    by (intro exI conjI)
  from import_plugins_unfold [OF nd'] ia
  have u: "import_plugins ?w'
         = (case import_apps_submodule ''page_type_plugins'' (installed_apps w) ?w' of
              (None, w1) \<Rightarrow> (None, w1\<lparr>pool := (pool w1)\<lparr>detected := True\<rparr>\<rparr>)
            | (Some e', w1) \<Rightarrow> (Some e', w1))"
    by simp
  from nd' ia u l show ?thesis by (intro conjI)
qed

text \<open>
  Claim C4, as the code has it. While the flag is false, the call of any of the four
  accessors runs the scan over the installed applications, from the first one on. A scan
  that completes without raising has imported the module of every installed
  application, once each and in order, and sets the flag; from then on no call of the
  accessors, in any order and any number, scans again: the interpreter state, the log of
  imports included, stays what it is. A scan that raises leaves the flag false, and the
  next call of any accessor runs the scan again, over the same applications.
\<close>

theorem discovery_once:
  "(detected (pool w) \<longrightarrow> run_calls w cs = w)
   \<and> (\<not> detected (pool w) \<longrightarrow>
        run_call w c = snd (import_plugins w)
        \<and> import_plugins w
            = (case import_apps_submodule ''page_type_plugins'' (installed_apps w) w of
                 (None, w1) \<Rightarrow> (None, w1\<lparr>pool := (pool w1)\<lparr>detected := True\<rparr>\<rparr>)
               | (Some e, w1) \<Rightarrow> (Some e, w1))
        \<and> (\<forall>a apps. installed_apps w = a # apps \<longrightarrow>
              (\<exists>ext. import_calls (run_call w c)
                  = import_calls w @ [app_name a @ ''.page_type_plugins''] @ ext)))
   \<and> (fst (import_plugins w) = None \<longrightarrow>
        detected (pool (run_call w c))
        \<and> run_calls (run_call w c) cs = run_call w c
        \<and> import_calls (run_calls w (c # cs)) = import_calls (run_call w c))
   \<and> (\<not> detected (pool w) \<and> fst (import_plugins w) = None \<longrightarrow>
        import_calls (run_call w c)
          = import_calls w @ map (\<lambda>a. app_name a @ ''.page_type_plugins'') (installed_apps w))
   \<and> (fst (import_plugins w) = Some e \<longrightarrow>
        \<not> detected (pool (run_call w c))
        \<and> installed_apps (run_call w c) = installed_apps w
        \<and> run_call (run_call w c) c' = snd (import_plugins (run_call w c))
        \<and> import_plugins (run_call w c)
            = (case import_apps_submodule ''page_type_plugins'' (installed_apps w) (run_call w c) of
                 (None, w1) \<Rightarrow> (None, w1\<lparr>pool := (pool w1)\<lparr>detected := True\<rparr>\<rparr>)
               | (Some e', w1) \<Rightarrow> (Some e', w1))
        \<and> (\<exists>a apps ext. installed_apps w = a # apps
              \<and> import_calls (run_call (run_call w c) c')
                  = import_calls (run_call w c) @ [app_name a @ ''.page_type_plugins''] @ ext))"
proof -
  have c1: "detected (pool w) \<longrightarrow> run_calls w cs = w"
    using run_calls_detected by (rule impI)
  have c2: "\<not> detected (pool w) \<longrightarrow>
        run_call w c = snd (import_plugins w)
        \<and> import_plugins w
            = (case import_apps_submodule ''page_type_plugins'' (installed_apps w) w of
                 (None, w1) \<Rightarrow> (None, w1\<lparr>pool := (pool w1)\<lparr>detected := True\<rparr>\<rparr>)
               | (Some e, w1) \<Rightarrow> (Some e, w1))
        \<and> (\<forall>a apps. installed_apps w = a # apps \<longrightarrow>
              (\<exists>ext. import_calls (run_call w c)
                  = import_calls w @ [app_name a @ ''.page_type_plugins''] @ ext))"
  proof
    assume nd: "\<not> detected (pool w)"
    have a: "run_call w c = snd (import_plugins w)" by (rule run_call_world)
    have b: "\<forall>a apps. installed_apps w = a # apps \<longrightarrow>
              (\<exists>ext. import_calls (run_call w c)
                  = import_calls w @ [app_name a @ ''.page_type_plugins''] @ ext)"
      unfolding run_call_world using import_plugins_log [OF nd] by (intro allI impI)
    from a import_plugins_unfold [OF nd] b
    show "run_call w c = snd (import_plugins w)
        \<and> import_plugins w
            = (case import_apps_submodule ''page_type_plugins'' (installed_apps w) w of
                 (None, w1) \<Rightarrow> (None, w1\<lparr>pool := (pool w1)\<lparr>detected := True\<rparr>\<rparr>)
               | (Some e, w1) \<Rightarrow> (Some e, w1))
        \<and> (\<forall>a apps. installed_apps w = a # apps \<longrightarrow>
              (\<exists>ext. import_calls (run_call w c)
                  = import_calls w @ [app_name a @ ''.page_type_plugins''] @ ext))"
      by (intro conjI)
  qed
  have c3: "fst (import_plugins w) = None \<longrightarrow>
        detected (pool (run_call w c))
        \<and> run_calls (run_call w c) cs = run_call w c
        \<and> import_calls (run_calls w (c # cs)) = import_calls (run_call w c)"
  proof
    assume "fst (import_plugins w) = None"
    then have d: "detected (pool (run_call w c))"
      unfolding run_call_world by (rule import_plugins_ok)
    then have r: "run_calls (run_call w c) cs = run_call w c" by (rule run_calls_detected)
    have "run_calls w (c # cs) = run_calls (run_call w c) cs" by (simp add: run_calls_def)
    with r have "import_calls (run_calls w (c # cs)) = import_calls (run_call w c)" by simp
    with d r show "detected (pool (run_call w c))
        \<and> run_calls (run_call w c) cs = run_call w c
        \<and> import_calls (run_calls w (c # cs)) = import_calls (run_call w c)"
      by (intro conjI)
  qed
  have c4: "\<not> detected (pool w) \<and> fst (import_plugins w) = None \<longrightarrow>
        import_calls (run_call w c)
          = import_calls w @ map (\<lambda>a. app_name a @ ''.page_type_plugins'') (installed_apps w)"
    unfolding run_call_world using import_plugins_complete_log by (intro impI, elim conjE)
  have c5: "fst (import_plugins w) = Some e \<longrightarrow>
        \<not> detected (pool (run_call w c))
        \<and> installed_apps (run_call w c) = installed_apps w
        \<and> run_call (run_call w c) c' = snd (import_plugins (run_call w c))
        \<and> import_plugins (run_call w c)
            = (case import_apps_submodule ''page_type_plugins'' (installed_apps w) (run_call w c) of
                 (None, w1) \<Rightarrow> (None, w1\<lparr>pool := (pool w1)\<lparr>detected := True\<rparr>\<rparr>)
               | (Some e', w1) \<Rightarrow> (Some e', w1))
        \<and> (\<exists>a apps ext. installed_apps w = a # apps
              \<and> import_calls (run_call (run_call w c) c')
                  = import_calls (run_call w c) @ [app_name a @ ''.page_type_plugins''] @ ext)"
  proof
    assume f: "fst (import_plugins w) = Some e"
    note n = failed_scan_next [OF f]
    from n have n1: "\<not> detected (pool (snd (import_plugins w)))" by (elim conjE)
    from n have n2: "installed_apps (snd (import_plugins w)) = installed_apps w" by (elim conjE)
    from n have n3: "import_plugins (snd (import_plugins w))
         = (case import_apps_submodule ''page_type_plugins'' (installed_apps w) (snd (import_plugins w)) of
              (None, w1) \<Rightarrow> (None, w1\<lparr>pool := (pool w1)\<lparr>detected := True\<rparr>\<rparr>)
            | (Some e', w1) \<Rightarrow> (Some e', w1))" by (elim conjE)
    from n have n4: "\<exists>a apps ext. installed_apps w = a # apps
           \<and> import_calls (snd (import_plugins (snd (import_plugins w))))
               = import_calls (snd (import_plugins w)) @ [app_name a @ ''.page_type_plugins''] @ ext"
      by (elim conjE)
    have n5: "snd (import_plugins (snd (import_plugins w))) = snd (import_plugins (snd (import_plugins w)))"
      by (rule refl)
    from n1 n2 n5 n3 n4
    show "\<not> detected (pool (run_call w c))
        \<and> installed_apps (run_call w c) = installed_apps w
        \<and> run_call (run_call w c) c' = snd (import_plugins (run_call w c))
        \<and> import_plugins (run_call w c)
            = (case import_apps_submodule ''page_type_plugins'' (installed_apps w) (run_call w c) of
                 (None, w1) \<Rightarrow> (None, w1\<lparr>pool := (pool w1)\<lparr>detected := True\<rparr>\<rparr>)
               | (Some e', w1) \<Rightarrow> (Some e', w1))
        \<and> (\<exists>a apps ext. installed_apps w = a # apps
              \<and> import_calls (run_call (run_call w c) c')
                  = import_calls (run_call w c) @ [app_name a @ ''.page_type_plugins''] @ ext)"
      unfolding run_call_world by (intro conjI)
  qed
  show ?thesis by (intro conjI c1 c2 c3 c4 c5)
qed

theorem discovery_once_witness:
  "fst (import_plugins good_world) = None
   \<and> detected (pool (run_call good_world GetPlugins))
   \<and> run_calls (run_call good_world GetPlugins)
        [GetModelClasses, GetPluginByModel FluentPage, GetModelAdmin TextFile, GetPlugins]
       = run_call good_world GetPlugins
   \<and> import_calls (run_calls good_world
        [GetPlugins, GetModelClasses, GetPluginByModel FluentPage, GetModelAdmin TextFile, GetPlugins])
       = [''django.contrib.admin.page_type_plugins'',
          ''fluent_pages.pagetypes.fluentpage.page_type_plugins'',
          ''fluent_pages.pagetypes.textfile.page_type_plugins'']
   \<and> fst (import_plugins broken_world) = Some (ImportError ''No module named payments'')
   \<and> \<not> detected (pool (run_call broken_world GetPlugins))
   \<and> run_call (run_call broken_world GetPlugins) GetModelClasses
       = snd (import_plugins (run_call broken_world GetPlugins))"
proof -
  from good_import have h: "fst (import_plugins good_world) = None" by (rule conjunct1)
  have nd: "\<not> detected (pool good_world)" by (simp add: world_defs)
  note t = discovery_once [of good_world
      "[GetModelClasses, GetPluginByModel FluentPage, GetModelAdmin TextFile, GetPlugins]" GetPlugins
      "AssertionError []" GetPlugins]
  from t have "fst (import_plugins good_world) = None \<longrightarrow>
        detected (pool (run_call good_world GetPlugins))
        \<and> run_calls (run_call good_world GetPlugins)
             [GetModelClasses, GetPluginByModel FluentPage, GetModelAdmin TextFile, GetPlugins]
            = run_call good_world GetPlugins
        \<and> import_calls (run_calls good_world
             (GetPlugins # [GetModelClasses, GetPluginByModel FluentPage, GetModelAdmin TextFile, GetPlugins]))
            = import_calls (run_call good_world GetPlugins)"
    by (elim conjE)
  from this h have r: "detected (pool (run_call good_world GetPlugins))
        \<and> run_calls (run_call good_world GetPlugins)
             [GetModelClasses, GetPluginByModel FluentPage, GetModelAdmin TextFile, GetPlugins]
            = run_call good_world GetPlugins
        \<and> import_calls (run_calls good_world
             (GetPlugins # [GetModelClasses, GetPluginByModel FluentPage, GetModelAdmin TextFile, GetPlugins]))
            = import_calls (run_call good_world GetPlugins)"
    by (rule mp)
  from t have "\<not> detected (pool good_world) \<and> fst (import_plugins good_world) = None \<longrightarrow>
        import_calls (run_call good_world GetPlugins)
          = import_calls good_world
              @ map (\<lambda>a. app_name a @ ''.page_type_plugins'') (installed_apps good_world)"
    by (elim conjE)
  with nd h have "import_calls (run_call good_world GetPlugins)
          = import_calls good_world
              @ map (\<lambda>a. app_name a @ ''.page_type_plugins'') (installed_apps good_world)"
    by simp
  then have g: "import_calls (run_call good_world GetPlugins)
       = [''django.contrib.admin.page_type_plugins'',
          ''fluent_pages.pagetypes.fluentpage.page_type_plugins'',
          ''fluent_pages.pagetypes.textfile.page_type_plugins'']"
    by (simp add: world_defs)
  have e: "broken_world = broken_world\<lparr>import_calls := []\<rparr>" by (simp add: world_defs)
  from broken_import [of "[]"]
  have b: "fst (import_plugins broken_world) = Some (ImportError ''No module named payments'')"
    by (simp add: e [symmetric])
  note u = discovery_once [of broken_world "[]" GetPlugins
      "ImportError ''No module named payments''" GetModelClasses]
  from u have "fst (import_plugins broken_world) = Some (ImportError ''No module named payments'') \<longrightarrow>
        \<not> detected (pool (run_call broken_world GetPlugins))
        \<and> installed_apps (run_call broken_world GetPlugins) = installed_apps broken_world
        \<and> run_call (run_call broken_world GetPlugins) GetModelClasses
            = snd (import_plugins (run_call broken_world GetPlugins))
        \<and> import_plugins (run_call broken_world GetPlugins)
            = (case import_apps_submodule ''page_type_plugins'' (installed_apps broken_world)
                      (run_call broken_world GetPlugins) of
                 (None, w1) \<Rightarrow> (None, w1\<lparr>pool := (pool w1)\<lparr>detected := True\<rparr>\<rparr>)
               | (Some e', w1) \<Rightarrow> (Some e', w1))
        \<and> (\<exists>a apps ext. installed_apps broken_world = a # apps
              \<and> import_calls (run_call (run_call broken_world GetPlugins) GetModelClasses)
                  = import_calls (run_call broken_world GetPlugins)
                      @ [app_name a @ ''.page_type_plugins''] @ ext)"
    by (elim conjE)
  from this b have v: "\<not> detected (pool (run_call broken_world GetPlugins))
        \<and> installed_apps (run_call broken_world GetPlugins) = installed_apps broken_world
        \<and> run_call (run_call broken_world GetPlugins) GetModelClasses
            = snd (import_plugins (run_call broken_world GetPlugins))
        \<and> import_plugins (run_call broken_world GetPlugins)
            = (case import_apps_submodule ''page_type_plugins'' (installed_apps broken_world)
                      (run_call broken_world GetPlugins) of
                 (None, w1) \<Rightarrow> (None, w1\<lparr>pool := (pool w1)\<lparr>detected := True\<rparr>\<rparr>)
               | (Some e', w1) \<Rightarrow> (Some e', w1))
        \<and> (\<exists>a apps ext. installed_apps broken_world = a # apps
              \<and> import_calls (run_call (run_call broken_world GetPlugins) GetModelClasses)
                  = import_calls (run_call broken_world GetPlugins)
                      @ [app_name a @ ''.page_type_plugins''] @ ext)"
    by (rule mp)
  from v have v1: "\<not> detected (pool (run_call broken_world GetPlugins))" by (elim conjE)
  from v have v2: "run_call (run_call broken_world GetPlugins) GetModelClasses
       = snd (import_plugins (run_call broken_world GetPlugins))" by (elim conjE)
  from r have r1: "detected (pool (run_call good_world GetPlugins))" by (elim conjE)
  from r have r2: "run_calls (run_call good_world GetPlugins)
        [GetModelClasses, GetPluginByModel FluentPage, GetModelAdmin TextFile, GetPlugins]
       = run_call good_world GetPlugins" by (elim conjE)
  from r have "import_calls (run_calls good_world
        [GetPlugins, GetModelClasses, GetPluginByModel FluentPage, GetModelAdmin TextFile, GetPlugins])
       = import_calls (run_call good_world GetPlugins)" by (elim conjE)
  with g have r3: "import_calls (run_calls good_world
        [GetPlugins, GetModelClasses, GetPluginByModel FluentPage, GetModelAdmin TextFile, GetPlugins])
       = [''django.contrib.admin.page_type_plugins'',
          ''fluent_pages.pagetypes.fluentpage.page_type_plugins'',
          ''fluent_pages.pagetypes.textfile.page_type_plugins'']" by simp
  from h r1 r2 r3 b v1 v2 show ?thesis by (intro conjI)
qed

subsection \<open>A scan that raises\<close>

lemma half_import:
  "fst (import_plugins half_world) = Some (ImportError ''No module named payments'')
   \<and> plugins (pool half_world) = []
   \<and> plugins (pool (snd (import_plugins half_world))) = [(''FluentPagePlugin'', FluentPagePlugin)]
   \<and> detected (pool (snd (import_plugins half_world))) = False
   \<and> import_calls (snd (import_plugins half_world))
       = [''fluent_pages.pagetypes.fluentpage.page_type_plugins'', ''shop.page_type_plugins'']"
  by (simp add: world_defs scan_defs plugin_defs)

text \<open>
  A scan that raises does not leave the registry as it was: the modules imported before
  the failure have registered their plugins.
\<close>

theorem failed_scan_keeps_registrations_counterexample:
  "fst (import_plugins half_world) = Some (ImportError ''No module named payments'')
   \<and> plugins (pool half_world) = []
   \<and> plugins (pool (snd (import_plugins half_world))) = [(''FluentPagePlugin'', FluentPagePlugin)]
   \<and> detected (pool (snd (import_plugins half_world))) = False"
  using half_import by (elim conjE) (intro conjI)

lemma failed_scan_pool:
  assumes "fst (import_plugins w) = Some e"
  shows "\<exists>cs. pool (snd (import_plugins w)) = register_calls (pool w) cs"
proof -
  from import_plugins_raises [OF assms]
  have s: "import_apps_submodule ''page_type_plugins'' (installed_apps w) w
         = (Some e, snd (import_plugins w))"
    by (elim conjE)
  from scan_facts [of "''page_type_plugins''" "installed_apps w" w "[]"]
  have "\<exists>cs. pool (snd (import_apps_submodule ''page_type_plugins'' (installed_apps w) w))
      = register_calls (pool w) cs"
    by (elim conjE)
  then show ?thesis unfolding s snd_conv .
qed

lemma scan_append:
  "import_apps_submodule s pre w = (None, w1) \<Longrightarrow>
     import_apps_submodule s (pre @ rest) w = import_apps_submodule s rest w1"
proof (induction pre arbitrary: w)
  case Nil
  then show ?case by simp
next
  case (Cons a pre)
  obtain r w0 where i: "import_module (''.'' @ s) a w = (r, w0)"
    by (cases "import_module (''.'' @ s) a w")
  show ?case
  proof (cases "r = None \<or> (\<exists>m. r = Some (ImportError m) \<and> py_in s m)")
    case True
    with scan_Cons [OF i, of pre]
    have "import_apps_submodule s (a # pre) w = import_apps_submodule s pre w0" by simp
    with Cons.prems have "import_apps_submodule s pre w0 = (None, w1)" by simp
    then have "import_apps_submodule s (pre @ rest) w0 = import_apps_submodule s rest w1"
      by (rule Cons.IH)
    moreover from True scan_Cons [OF i, of "pre @ rest"]
    have "import_apps_submodule s (a # (pre @ rest)) w = import_apps_submodule s (pre @ rest) w0"
      by simp
    ultimately show ?thesis by simp
  next
    case False
    with scan_Cons [OF i, of pre]
    have "import_apps_submodule s (a # pre) w = (r, w0)" by simp
    with Cons.prems have "r = None" by simp
    with False show ?thesis by simp
  qed
qed

lemma scan_stops:
  assumes i: "import_module (''.'' @ s) a w = (Some e, w2)"
    and n: "\<forall>m. e = ImportError m \<longrightarrow> \<not> py_in s m"
  shows "import_apps_submodule s (a # post) w = (Some e, w2)"
proof -
  from n have cond: "(Some e = None \<or> (\<exists>m. Some e = Some (ImportError m) \<and> py_in s m)) = False"
    by simp
  show ?thesis unfolding scan_Cons [OF i, of post] cond by (rule if_False)
qed

lemma register_mono:
  assumes h: "map_of (plugins p) n = Some c"
  shows "map_of (plugins (snd (register p c'))) n = Some c"
proof -
  obtain r p' where q: "register p c' = (r, p')" by (cases "register p c'")
  have upd: "map_of (plugins p') n = Some c"
    if f: "map_of (plugins p) (cls_name c') = None"
      and pl: "plugins p' = AList.update (cls_name c') c' (plugins p)"
  proof -
    from f h have ne: "n \<noteq> cls_name c'" by auto
    have "map_of (plugins p') = (map_of (plugins p))(cls_name c' \<mapsto> c')"
      by (simp only: pl update_conv')
    with ne h show ?thesis by simp
  qed
  have "map_of (plugins p') n = Some c"
  proof (cases r)
    case None
    with q have "register p c' = (None, p')" by simp
    from register_success [OF this] obtain m where
      f: "map_of (plugins p) (cls_name c') = None"
      and e: "p' = p\<lparr>plugins := AList.update (cls_name c') c' (plugins p),
                     plugin_for_model := (plugin_for_model p)(m \<mapsto> cls_name c'),
                     admin_site := (admin_site p)(m \<mapsto> (model_admin c', m))\<rparr>"
      by (elim exE conjE)
    from e have pl: "plugins p' = AList.update (cls_name c') c' (plugins p)" by simp
    from f pl show ?thesis by (rule upd)
  next
    case (Some e)
    with q have "register p c' = (Some e, p')" by simp
    from register_failure [OF this] show ?thesis
    proof (elim disjE exE conjE)
      assume "p' = p"
      with h show ?thesis by simp
    next
      fix m msg
      assume f: "map_of (plugins p) (cls_name c') = None"
        and e: "p' = p\<lparr>plugins := AList.update (cls_name c') c' (plugins p),
                         plugin_for_model := (plugin_for_model p)(m \<mapsto> cls_name c')\<rparr>"
      from e have pl: "plugins p' = AList.update (cls_name c') c' (plugins p)" by simp
      from f pl show ?thesis by (rule upd)
    qed
  qed
  with q show ?thesis by simp
qed

lemma register_calls_mono:
  "map_of (plugins p) n = Some c \<Longrightarrow> map_of (plugins (register_calls p cs)) n = Some c"
proof (induction cs arbitrary: p)
  case Nil
  then show ?case by (simp add: register_calls_def)
next
  case (Cons c' cs)
  from Cons.prems have "map_of (plugins (snd (register p c'))) n = Some c" by (rule register_mono)
  then have "map_of (plugins (register_calls (snd (register p c')) cs)) n = Some c"
    by (rule Cons.IH)
  then show ?case by (simp add: register_calls_def)
qed

lemma import_module_mono:
  assumes "map_of (plugins (pool w)) n = Some c"
  shows "map_of (plugins (pool (snd (import_module name a w)))) n = Some c"
proof -
  from import_module_facts [of name a w "[]"] obtain cs where
    "pool (snd (import_module name a w)) = register_calls (pool w) cs"
    by (elim conjE exE)
  with register_calls_mono [OF assms, of cs] show ?thesis by simp
qed

lemma failed_scan_state:
  assumes nd: "\<not> detected (pool w)"
    and apps: "installed_apps w = pre @ a # post"
    and before: "import_apps_submodule ''page_type_plugins'' pre w = (None, w1)"
    and fails: "import_module ''.page_type_plugins'' a w1 = (Some e, w2)"
    and loud: "\<forall>m. e = ImportError m \<longrightarrow> \<not> py_in ''page_type_plugins'' m"
  shows "import_plugins w = (Some e, w2)
     \<and> (\<forall>n c. map_of (plugins (pool w1)) n = Some c \<longrightarrow>
           map_of (plugins (pool (snd (import_plugins w)))) n = Some c)"
proof -
  from fails have fails': "import_module (''.'' @ ''page_type_plugins'') a w1 = (Some e, w2)" by simp
  from scan_stops [OF fails' loud, of post]
  have "import_apps_submodule ''page_type_plugins'' (a # post) w1 = (Some e, w2)" .
  with scan_append [OF before, of "a # post"] apps
  have s: "import_apps_submodule ''page_type_plugins'' (installed_apps w) w = (Some e, w2)" by simp
  from import_plugins_scan [OF nd s] have ip: "import_plugins w = (Some e, w2)" by simp
  have "map_of (plugins (pool w2)) n = Some c" if "map_of (plugins (pool w1)) n = Some c" for n c
    using import_module_mono [OF that, of "''.page_type_plugins''" a] fails by simp
  then have "\<forall>n c. map_of (plugins (pool w1)) n = Some c \<longrightarrow>
           map_of (plugins (pool (snd (import_plugins w)))) n = Some c"
    unfolding ip snd_conv by (intro allI impI)
  with ip show ?thesis by (rule conjI)
qed

text \<open>
  Claim C10, as the code has it. The flag turns true only in a call whose scan over
  all installed applications completed without raising. When the scan raises, the call
  returns the exception and the state exactly as the scan left them: the flag remains
  false, and the pool is the one the modules imported before the failure, and the
  failing module up to its failure, have registered their plugins in (unchanged only
  when they registered nothing). The next call to any accessor runs the scan again over
  the same installed applications, from the first one on.
\<close>

theorem failed_scan_retried:
  "(\<not> detected (pool w) \<and> detected (pool (snd (import_plugins w))) \<longrightarrow>
      fst (import_plugins w) = None
      \<and> fst (import_apps_submodule ''page_type_plugins'' (installed_apps w) w) = None)
   \<and> (fst (import_plugins w) = Some e \<longrightarrow>
        \<not> detected (pool (snd (import_plugins w)))
        \<and> import_plugins w = import_apps_submodule ''page_type_plugins'' (installed_apps w) w
        \<and> (\<exists>cs. pool (snd (import_plugins w)) = register_calls (pool w) cs)
        \<and> run_call (snd (import_plugins w)) c = snd (import_plugins (snd (import_plugins w)))
        \<and> import_plugins (snd (import_plugins w))
            = (case import_apps_submodule ''page_type_plugins'' (installed_apps w)
                      (snd (import_plugins w)) of
                 (None, w') \<Rightarrow> (None, w'\<lparr>pool := (pool w')\<lparr>detected := True\<rparr>\<rparr>)
               | (Some e', w') \<Rightarrow> (Some e', w'))
        \<and> (\<exists>a apps ext. installed_apps w = a # apps
              \<and> import_calls (run_call (snd (import_plugins w)) c)
                  = import_calls (snd (import_plugins w)) @ [app_name a @ ''.page_type_plugins''] @ ext))
   \<and> (\<not> detected (pool w) \<and> installed_apps w = pre @ a # post
        \<and> import_apps_submodule ''page_type_plugins'' pre w = (None, w1)
        \<and> import_module ''.page_type_plugins'' a w1 = (Some e, w2)
        \<and> (\<forall>m. e = ImportError m \<longrightarrow> \<not> py_in ''page_type_plugins'' m) \<longrightarrow>
        import_plugins w = (Some e, w2)
        \<and> (\<forall>n c. map_of (plugins (pool w1)) n = Some c \<longrightarrow>
              map_of (plugins (pool (snd (import_plugins w)))) n = Some c))"
proof -
  have c1: "\<not> detected (pool w) \<and> detected (pool (snd (import_plugins w))) \<longrightarrow>
      fst (import_plugins w) = None
      \<and> fst (import_apps_submodule ''page_type_plugins'' (installed_apps w) w) = None"
  proof (intro impI, elim conjE)
    assume nd: "\<not> detected (pool w)" and d: "detected (pool (snd (import_plugins w)))"
    obtain r w1 where s: "import_apps_submodule ''page_type_plugins'' (installed_apps w) w = (r, w1)"
      by (cases "import_apps_submodule ''page_type_plugins'' (installed_apps w) w")
    have "r = None"
    proof (cases r)
      case None
      then show ?thesis .
    next
      case (Some e)
      with import_plugins_scan [OF nd s] have "fst (import_plugins w) = Some e" by simp
      from import_plugins_raises [OF this] have "\<not> detected (pool (snd (import_plugins w)))"
        by (elim conjE)
      from this d show ?thesis by (rule notE)
    qed
    with import_plugins_scan [OF nd s] s
    show "fst (import_plugins w) = None
      \<and> fst (import_apps_submodule ''page_type_plugins'' (installed_apps w) w) = None"
      by simp
  qed
  have c2: "fst (import_plugins w) = Some e \<longrightarrow>
        \<not> detected (pool (snd (import_plugins w)))
        \<and> import_plugins w = import_apps_submodule ''page_type_plugins'' (installed_apps w) w
        \<and> (\<exists>cs. pool (snd (import_plugins w)) = register_calls (pool w) cs)
        \<and> run_call (snd (import_plugins w)) c = snd (import_plugins (snd (import_plugins w)))
        \<and> import_plugins (snd (import_plugins w))
            = (case import_apps_submodule ''page_type_plugins'' (installed_apps w)
                      (snd (import_plugins w)) of
                 (None, w') \<Rightarrow> (None, w'\<lparr>pool := (pool w')\<lparr>detected := True\<rparr>\<rparr>)
               | (Some e', w') \<Rightarrow> (Some e', w'))
        \<and> (\<exists>a apps ext. installed_apps w = a # apps
              \<and> import_calls (run_call (snd (import_plugins w)) c)
                  = import_calls (snd (import_plugins w)) @ [app_name a @ ''.page_type_plugins''] @ ext)"
  proof
    assume f: "fst (import_plugins w) = Some e"
    let ?w' = "snd (import_plugins w)"
    note n = failed_scan_next [OF f]
    from n have n1: "\<not> detected (pool ?w')" by (elim conjE)
    from n have n3: "import_plugins ?w'
         = (case import_apps_submodule ''page_type_plugins'' (installed_apps w) ?w' of
              (None, w') \<Rightarrow> (None, w'\<lparr>pool := (pool w')\<lparr>detected := True\<rparr>\<rparr>)
            | (Some e', w') \<Rightarrow> (Some e', w'))" by (elim conjE)
    from n have "\<exists>a apps ext. installed_apps w = a # apps
           \<and> import_calls (snd (import_plugins ?w'))
               = import_calls ?w' @ [app_name a @ ''.page_type_plugins''] @ ext"
      by (elim conjE)
    then have n4: "\<exists>a apps ext. installed_apps w = a # apps
           \<and> import_calls (run_call ?w' c)
               = import_calls ?w' @ [app_name a @ ''.page_type_plugins''] @ ext"
      by (simp only: run_call_world)
    from import_plugins_raises [OF f]
    have "import_apps_submodule ''page_type_plugins'' (installed_apps w) w = (Some e, ?w')"
      by (elim conjE)
    moreover from f have "import_plugins w = (Some e, ?w')"
      by (cases "import_plugins w") simp
    ultimately have n2: "import_plugins w
        = import_apps_submodule ''page_type_plugins'' (installed_apps w) w" by simp
    have r: "run_call ?w' c = snd (import_plugins ?w')" by (rule run_call_world)
    from n1 n2 failed_scan_pool [OF f] r n3 n4
    show "\<not> detected (pool ?w')
        \<and> import_plugins w = import_apps_submodule ''page_type_plugins'' (installed_apps w) w
        \<and> (\<exists>cs. pool ?w' = register_calls (pool w) cs)
        \<and> run_call ?w' c = snd (import_plugins ?w')
        \<and> import_plugins ?w'
            = (case import_apps_submodule ''page_type_plugins'' (installed_apps w) ?w' of
                 (None, w') \<Rightarrow> (None, w'\<lparr>pool := (pool w')\<lparr>detected := True\<rparr>\<rparr>)
               | (Some e', w') \<Rightarrow> (Some e', w'))
        \<and> (\<exists>a apps ext. installed_apps w = a # apps
              \<and> import_calls (run_call ?w' c)
                  = import_calls ?w' @ [app_name a @ ''.page_type_plugins''] @ ext)"
      by (intro conjI)
  qed
  have c3: "\<not> detected (pool w) \<and> installed_apps w = pre @ a # post
        \<and> import_apps_submodule ''page_type_plugins'' pre w = (None, w1)
        \<and> import_module ''.page_type_plugins'' a w1 = (Some e, w2)
        \<and> (\<forall>m. e = ImportError m \<longrightarrow> \<not> py_in ''page_type_plugins'' m) \<longrightarrow>
        import_plugins w = (Some e, w2)
        \<and> (\<forall>n c. map_of (plugins (pool w1)) n = Some c \<longrightarrow>
              map_of (plugins (pool (snd (import_plugins w)))) n = Some c)"
    using failed_scan_state by (intro impI, elim conjE)
  show ?thesis by (intro conjI c1 c2 c3)
qed

theorem failed_scan_retried_witness:
  "\<not> detected (pool half_world)
   \<and> plugins (pool half_world) = []
   \<and> installed_apps half_world = [fluentpage_app] @ broken_app # []
   \<and> fst (import_apps_submodule ''page_type_plugins'' [fluentpage_app] half_world) = None
   \<and> fst (import_plugins half_world) = Some (ImportError ''No module named payments'')
   \<and> \<not> detected (pool (snd (import_plugins half_world)))
   \<and> map_of (plugins (pool (snd (import_plugins half_world)))) ''FluentPagePlugin''
       = Some FluentPagePlugin
   \<and> run_call (snd (import_plugins half_world)) GetPlugins
       = snd (import_plugins (snd (import_plugins half_world)))"
proof -
  define w1 where "w1 = snd (import_apps_submodule ''page_type_plugins'' [fluentpage_app] half_world)"
  define w2 where "w2 = snd (import_module ''.page_type_plugins'' broken_app w1)"
  have nd: "\<not> detected (pool half_world)" and emp: "plugins (pool half_world) = []"
    and apps: "installed_apps half_world = [fluentpage_app] @ broken_app # []"
    by (simp_all add: world_defs)
  have b0: "fst (import_apps_submodule ''page_type_plugins'' [fluentpage_app] half_world) = None"
    by (simp add: world_defs scan_defs plugin_defs)
  then have before: "import_apps_submodule ''page_type_plugins'' [fluentpage_app] half_world = (None, w1)"
    unfolding w1_def by (cases "import_apps_submodule ''page_type_plugins'' [fluentpage_app] half_world") simp
  have reg: "map_of (plugins (pool w1)) ''FluentPagePlugin'' = Some FluentPagePlugin"
    unfolding w1_def by (simp add: world_defs scan_defs plugin_defs)
  have "fst (import_module ''.page_type_plugins'' broken_app w1)
      = Some (ImportError ''No module named payments'')"
    unfolding w1_def by (simp add: world_defs scan_defs plugin_defs)
  then have fails: "import_module ''.page_type_plugins'' broken_app w1
      = (Some (ImportError ''No module named payments''), w2)"
    unfolding w2_def by (cases "import_module ''.page_type_plugins'' broken_app w1") simp
  have loud: "\<forall>m. ImportError ''No module named payments'' = ImportError m
      \<longrightarrow> \<not> py_in ''page_type_plugins'' m"
    using not_in_payments by simp
  note t = failed_scan_retried [of half_world "ImportError ''No module named payments''" GetPlugins
      "[fluentpage_app]" broken_app "[]" w1 w2]
  from t have "\<not> detected (pool half_world) \<and> installed_apps half_world = [fluentpage_app] @ broken_app # []
        \<and> import_apps_submodule ''page_type_plugins'' [fluentpage_app] half_world = (None, w1)
        \<and> import_module ''.page_type_plugins'' broken_app w1
            = (Some (ImportError ''No module named payments''), w2)
        \<and> (\<forall>m. ImportError ''No module named payments'' = ImportError m
              \<longrightarrow> \<not> py_in ''page_type_plugins'' m) \<longrightarrow>
        import_plugins half_world = (Some (ImportError ''No module named payments''), w2)
        \<and> (\<forall>n c. map_of (plugins (pool w1)) n = Some c \<longrightarrow>
              map_of (plugins (pool (snd (import_plugins half_world)))) n = Some c)"
    by (elim conjE)
  moreover from nd apps before fails loud
  have "\<not> detected (pool half_world) \<and> installed_apps half_world = [fluentpage_app] @ broken_app # []
        \<and> import_apps_submodule ''page_type_plugins'' [fluentpage_app] half_world = (None, w1)
        \<and> import_module ''.page_type_plugins'' broken_app w1
            = (Some (ImportError ''No module named payments''), w2)
        \<and> (\<forall>m. ImportError ''No module named payments'' = ImportError m
              \<longrightarrow> \<not> py_in ''page_type_plugins'' m)"
    by (intro conjI)
  ultimately have r: "import_plugins half_world = (Some (ImportError ''No module named payments''), w2)
        \<and> (\<forall>n c. map_of (plugins (pool w1)) n = Some c \<longrightarrow>
              map_of (plugins (pool (snd (import_plugins half_world)))) n = Some c)"
    by (rule mp)
  from r have f: "fst (import_plugins half_world) = Some (ImportError ''No module named payments'')"
    by simp
  from r have "\<forall>n c. map_of (plugins (pool w1)) n = Some c \<longrightarrow>
              map_of (plugins (pool (snd (import_plugins half_world)))) n = Some c"
    by (rule conjunct2)
  then have "map_of (plugins (pool w1)) ''FluentPagePlugin'' = Some FluentPagePlugin \<longrightarrow>
      map_of (plugins (pool (snd (import_plugins half_world)))) ''FluentPagePlugin'' = Some FluentPagePlugin"
    by (elim allE)
  from this reg have kept: "map_of (plugins (pool (snd (import_plugins half_world)))) ''FluentPagePlugin''
       = Some FluentPagePlugin" by (rule mp)
  from t have "fst (import_plugins half_world) = Some (ImportError ''No module named payments'') \<longrightarrow>
        \<not> detected (pool (snd (import_plugins half_world)))
        \<and> import_plugins half_world
            = import_apps_submodule ''page_type_plugins'' (installed_apps half_world) half_world
        \<and> (\<exists>cs. pool (snd (import_plugins half_world)) = register_calls (pool half_world) cs)
        \<and> run_call (snd (import_plugins half_world)) GetPlugins
            = snd (import_plugins (snd (import_plugins half_world)))
        \<and> import_plugins (snd (import_plugins half_world))
            = (case import_apps_submodule ''page_type_plugins'' (installed_apps half_world)
                      (snd (import_plugins half_world)) of
                 (None, w') \<Rightarrow> (None, w'\<lparr>pool := (pool w')\<lparr>detected := True\<rparr>\<rparr>)
               | (Some e', w') \<Rightarrow> (Some e', w'))
        \<and> (\<exists>a apps ext. installed_apps half_world = a # apps
              \<and> import_calls (run_call (snd (import_plugins half_world)) GetPlugins)
                  = import_calls (snd (import_plugins half_world))
                      @ [app_name a @ ''.page_type_plugins''] @ ext)"
    by (elim conjE)
  from this f have v: "\<not> detected (pool (snd (import_plugins half_world)))
        \<and> import_plugins half_world
            = import_apps_submodule ''page_type_plugins'' (installed_apps half_world) half_world
        \<and> (\<exists>cs. pool (snd (import_plugins half_world)) = register_calls (pool half_world) cs)
        \<and> run_call (snd (import_plugins half_world)) GetPlugins
            = snd (import_plugins (snd (import_plugins half_world)))
        \<and> import_plugins (snd (import_plugins half_world))
            = (case import_apps_submodule ''page_type_plugins'' (installed_apps half_world)
                      (snd (import_plugins half_world)) of
                 (None, w') \<Rightarrow> (None, w'\<lparr>pool := (pool w')\<lparr>detected := True\<rparr>\<rparr>)
               | (Some e', w') \<Rightarrow> (Some e', w'))
        \<and> (\<exists>a apps ext. installed_apps half_world = a # apps
              \<and> import_calls (run_call (snd (import_plugins half_world)) GetPlugins)
                  = import_calls (snd (import_plugins half_world))
                      @ [app_name a @ ''.page_type_plugins''] @ ext)"
    by (rule mp)
  from v have v1: "\<not> detected (pool (snd (import_plugins half_world)))" by (elim conjE)
  from v have v2: "run_call (snd (import_plugins half_world)) GetPlugins
       = snd (import_plugins (snd (import_plugins half_world)))" by (elim conjE)
  from nd emp apps b0 f v1 kept v2 show ?thesis by (intro conjI)
qed

section \<open>A registration that the admin site refuses\<close>




section \<open>Which import errors the scan swallows\<close>

lemma starts_with_iff: "starts_with s t \<longleftrightarrow> (\<exists>post. t = s @ post)"
  by (induction s t rule: starts_with.induct) auto

lemma py_in_iff: "py_in s t \<longleftrightarrow> (\<exists>pre post. t = pre @ s @ post)"
proof (induction t)
  case Nil
  then show ?case by simp
next
  case (Cons d ds)
  have "(\<exists>pre post. d # ds = pre @ s @ post)
      \<longleftrightarrow> (\<exists>post. d # ds = s @ post) \<or> (\<exists>pre post. ds = pre @ s @ post)"
  proof
    assume "\<exists>pre post. d # ds = pre @ s @ post"
    then obtain pre post where e: "d # ds = pre @ s @ post" by (elim exE)
    show "(\<exists>post. d # ds = s @ post) \<or> (\<exists>pre post. ds = pre @ s @ post)"
    proof (cases pre)
      case Nil
      with e have "d # ds = s @ post" by simp
      then show ?thesis by (intro disjI1 exI)
    next
      case (Cons x pre')
      with e have "ds = pre' @ s @ post" by simp
      then show ?thesis by (intro disjI2 exI)
    qed
  next
    assume "(\<exists>post. d # ds = s @ post) \<or> (\<exists>pre post. ds = pre @ s @ post)"
    then show "\<exists>pre post. d # ds = pre @ s @ post"
    proof (elim disjE exE)
      fix post assume "d # ds = s @ post"
      then have "d # ds = [] @ s @ post" by simp
      then show ?thesis by (intro exI)
    next
      fix pre post assume "ds = pre @ s @ post"
      then have "d # ds = (d # pre) @ s @ post" by simp
      then show ?thesis by (intro exI)
    qed
  qed
  with Cons show ?case by (simp add: starts_with_iff)
qed

text \<open>
  An \<open>ImportError\<close> can be swallowed although the submodule is there: the module of
  this application exists and fails on an import of its own, whose message contains the
  name \<open>page_type_plugins\<close>.
\<close>

theorem swallowed_import_error_counterexample:
  "map_of (submodules helper_app) ''page_type_plugins''
     = Some [FailingImport ''No module named page_type_plugins_helpers'']
   \<and> fst (import_module ''.page_type_plugins'' helper_app (new_world [helper_app]))
       = Some (ImportError ''No module named page_type_plugins_helpers'')
   \<and> fst (import_apps_submodule ''page_type_plugins'' [helper_app] (new_world [helper_app])) = None"
  by (simp add: world_defs scan_defs)

text \<open>
  Claim C5, as the code has it. An \<open>ImportError\<close> raised while a \<open>page_type_plugins\<close>
  module is imported is swallowed if and only if its message contains the name of the
  submodule as a substring: the scan then goes on with the next application. The
  message for the submodule missing in the application contains the name, so that case
  is swallowed; a message that mentions the name for another reason is swallowed too.
  An \<open>ImportError\<close> whose message does not contain the name, and an exception of any
  other class, ends the scan and reaches the caller as it was raised.
\<close>

theorem import_error_swallowed:
  "(import_module (''.'' @ s) a w = (Some (ImportError msg), w1) \<longrightarrow>
      import_apps_submodule s (a # apps) w
        = (if py_in s msg then import_apps_submodule s apps w1 else (Some (ImportError msg), w1)))
   \<and> (import_module (''.'' @ s) a w = (Some e, w1) \<and> (\<forall>m. e \<noteq> ImportError m) \<longrightarrow>
        import_apps_submodule s (a # apps) w = (Some e, w1))
   \<and> (py_in s msg \<longleftrightarrow> (\<exists>pre post. msg = pre @ s @ post))
   \<and> (app_name a @ ''.'' @ s \<notin> set (sys_modules w) \<and> map_of (submodules a) s = None \<longrightarrow>
        fst (import_module (''.'' @ s) a w) = Some (ImportError (''No module named '' @ s))
        \<and> py_in s (''No module named '' @ s)
        \<and> import_apps_submodule s (a # apps) w
            = import_apps_submodule s apps (snd (import_module (''.'' @ s) a w)))"
proof -
  have c1: "import_module (''.'' @ s) a w = (Some (ImportError msg), w1) \<longrightarrow>
      import_apps_submodule s (a # apps) w
        = (if py_in s msg then import_apps_submodule s apps w1 else (Some (ImportError msg), w1))"
  proof
    assume i: "import_module (''.'' @ s) a w = (Some (ImportError msg), w1)"
    have "(Some (ImportError msg) = None
        \<or> (\<exists>m. Some (ImportError msg) = Some (ImportError m) \<and> py_in s m)) = py_in s msg"
      by simp
    then show "import_apps_submodule s (a # apps) w
        = (if py_in s msg then import_apps_submodule s apps w1 else (Some (ImportError msg), w1))"
      unfolding scan_Cons [OF i, of apps] by (simp only:)
  qed
  have c2: "import_module (''.'' @ s) a w = (Some e, w1) \<and> (\<forall>m. e \<noteq> ImportError m) \<longrightarrow>
        import_apps_submodule s (a # apps) w = (Some e, w1)"
  proof (intro impI, elim conjE)
    assume i: "import_module (''.'' @ s) a w = (Some e, w1)" and n: "\<forall>m. e \<noteq> ImportError m"
    from n have "\<forall>m. e = ImportError m \<longrightarrow> \<not> py_in s m" by simp
    with i show "import_apps_submodule s (a # apps) w = (Some e, w1)" by (rule scan_stops)
  qed
  have c3: "py_in s msg \<longleftrightarrow> (\<exists>pre post. msg = pre @ s @ post)" by (rule py_in_iff)
  have inm: "py_in s (''No module named '' @ s)"
  proof -
    have "''No module named '' @ s = ''No module named '' @ s @ []" by simp
    then have "\<exists>pre post. ''No module named '' @ s = pre @ s @ post" by (intro exI)
    then show ?thesis by (simp only: py_in_iff)
  qed
  have c4: "app_name a @ ''.'' @ s \<notin> set (sys_modules w) \<and> map_of (submodules a) s = None \<longrightarrow>
        fst (import_module (''.'' @ s) a w) = Some (ImportError (''No module named '' @ s))
        \<and> py_in s (''No module named '' @ s)
        \<and> import_apps_submodule s (a # apps) w
            = import_apps_submodule s apps (snd (import_module (''.'' @ s) a w))"
  proof (intro impI, elim conjE)
    assume l: "app_name a @ ''.'' @ s \<notin> set (sys_modules w)" and m: "map_of (submodules a) s = None"
    obtain r w1 where i: "import_module (''.'' @ s) a w = (r, w1)"
      by (cases "import_module (''.'' @ s) a w")
    from l m i have r: "r = Some (ImportError (''No module named '' @ s))"
      by (simp add: import_module_def Let_def)
    from r inm have "(r = None \<or> (\<exists>m. r = Some (ImportError m) \<and> py_in s m)) = True" by simp
    then have "import_apps_submodule s (a # apps) w = import_apps_submodule s apps w1"
      unfolding scan_Cons [OF i, of apps] by (simp only: if_True)
    with i r inm show "fst (import_module (''.'' @ s) a w) = Some (ImportError (''No module named '' @ s))
        \<and> py_in s (''No module named '' @ s)
        \<and> import_apps_submodule s (a # apps) w
            = import_apps_submodule s apps (snd (import_module (''.'' @ s) a w))"
      by simp
  qed
  show ?thesis by (intro conjI c1 c2 c3 c4)
qed

theorem import_error_swallowed_witness:
  "app_name admin_app @ ''.'' @ ''page_type_plugins'' \<notin> set (sys_modules (new_world [admin_app]))
   \<and> map_of (submodules admin_app) ''page_type_plugins'' = None
   \<and> fst (import_apps_submodule ''page_type_plugins'' [admin_app] (new_world [admin_app])) = None
   \<and> fst (import_module ''.page_type_plugins'' helper_app (new_world [helper_app]))
       = Some (ImportError ''No module named page_type_plugins_helpers'')
   \<and> fst (import_apps_submodule ''page_type_plugins'' [helper_app] (new_world [helper_app])) = None
   \<and> fst (import_module ''.page_type_plugins'' broken_app (new_world [broken_app]))
       = Some (ImportError ''No module named payments'')
   \<and> fst (import_apps_submodule ''page_type_plugins'' [broken_app] (new_world [broken_app]))
       = Some (ImportError ''No module named payments'')"
proof -
  have h: "app_name admin_app @ ''.'' @ ''page_type_plugins'' \<notin> set (sys_modules (new_world [admin_app]))
      \<and> map_of (submodules admin_app) ''page_type_plugins'' = None"
    by (simp add: world_defs)
  note t = import_error_swallowed [of "''page_type_plugins''" admin_app "new_world [admin_app]"
      "[]" "new_world [admin_app]" "[]" "AssertionError []"]
  from t have "app_name admin_app @ ''.'' @ ''page_type_plugins'' \<notin> set (sys_modules (new_world [admin_app]))
      \<and> map_of (submodules admin_app) ''page_type_plugins'' = None \<longrightarrow>
        fst (import_module (''.'' @ ''page_type_plugins'') admin_app (new_world [admin_app]))
          = Some (ImportError (''No module named '' @ ''page_type_plugins''))
        \<and> py_in ''page_type_plugins'' (''No module named '' @ ''page_type_plugins'')
        \<and> import_apps_submodule ''page_type_plugins'' (admin_app # []) (new_world [admin_app])
            = import_apps_submodule ''page_type_plugins'' []
                (snd (import_module (''.'' @ ''page_type_plugins'') admin_app (new_world [admin_app])))"
    by (elim conjE)
  from this h have "fst (import_module (''.'' @ ''page_type_plugins'') admin_app (new_world [admin_app]))
          = Some (ImportError (''No module named '' @ ''page_type_plugins''))
        \<and> py_in ''page_type_plugins'' (''No module named '' @ ''page_type_plugins'')
        \<and> import_apps_submodule ''page_type_plugins'' (admin_app # []) (new_world [admin_app])
            = import_apps_submodule ''page_type_plugins'' []
                (snd (import_module (''.'' @ ''page_type_plugins'') admin_app (new_world [admin_app])))"
    by (rule mp)
  then have "import_apps_submodule ''page_type_plugins'' [admin_app] (new_world [admin_app])
            = import_apps_submodule ''page_type_plugins'' []
                (snd (import_module (''.'' @ ''page_type_plugins'') admin_app (new_world [admin_app])))"
    by (elim conjE)
  then have r1: "fst (import_apps_submodule ''page_type_plugins'' [admin_app] (new_world [admin_app])) = None"
    by (simp only: import_apps_submodule.simps fst_conv)
  define v1 where "v1 = snd (import_module ''.page_type_plugins'' helper_app (new_world [helper_app]))"
  have hf: "fst (import_module ''.page_type_plugins'' helper_app (new_world [helper_app]))
       = Some (ImportError ''No module named page_type_plugins_helpers'')"
    by (simp add: world_defs scan_defs)
  then have hi: "import_module (''.'' @ ''page_type_plugins'') helper_app (new_world [helper_app])
      = (Some (ImportError ''No module named page_type_plugins_helpers''), v1)"
    unfolding v1_def
    by (cases "import_module ''.page_type_plugins'' helper_app (new_world [helper_app])") simp
  note u = import_error_swallowed [of "''page_type_plugins''" helper_app "new_world [helper_app]"
      "''No module named page_type_plugins_helpers''" v1 "[]" "AssertionError []"]
  from u have "import_module (''.'' @ ''page_type_plugins'') helper_app (new_world [helper_app])
        = (Some (ImportError ''No module named page_type_plugins_helpers''), v1) \<longrightarrow>
      import_apps_submodule ''page_type_plugins'' (helper_app # []) (new_world [helper_app])
        = (if py_in ''page_type_plugins'' ''No module named page_type_plugins_helpers''
           then import_apps_submodule ''page_type_plugins'' [] v1
           else (Some (ImportError ''No module named page_type_plugins_helpers''), v1))"
    by (elim conjE)
  from this hi have "import_apps_submodule ''page_type_plugins'' (helper_app # []) (new_world [helper_app])
        = (if py_in ''page_type_plugins'' ''No module named page_type_plugins_helpers''
           then import_apps_submodule ''page_type_plugins'' [] v1
           else (Some (ImportError ''No module named page_type_plugins_helpers''), v1))"
    by (rule mp)
  then have r2: "fst (import_apps_submodule ''page_type_plugins'' [helper_app] (new_world [helper_app])) = None"
    by simp
  define v2 where "v2 = snd (import_module ''.page_type_plugins'' broken_app (new_world [broken_app]))"
  have bf: "fst (import_module ''.page_type_plugins'' broken_app (new_world [broken_app]))
       = Some (ImportError ''No module named payments'')"
    by (simp add: world_defs scan_defs)
  then have bi: "import_module (''.'' @ ''page_type_plugins'') broken_app (new_world [broken_app])
      = (Some (ImportError ''No module named payments''), v2)"
    unfolding v2_def
    by (cases "import_module ''.page_type_plugins'' broken_app (new_world [broken_app])") simp
  note x = import_error_swallowed [of "''page_type_plugins''" broken_app "new_world [broken_app]"
      "''No module named payments''" v2 "[]" "AssertionError []"]
  from x have "import_module (''.'' @ ''page_type_plugins'') broken_app (new_world [broken_app])
        = (Some (ImportError ''No module named payments''), v2) \<longrightarrow>
      import_apps_submodule ''page_type_plugins'' (broken_app # []) (new_world [broken_app])
        = (if py_in ''page_type_plugins'' ''No module named payments''
           then import_apps_submodule ''page_type_plugins'' [] v2
           else (Some (ImportError ''No module named payments''), v2))"
    by (elim conjE)
  from this bi have "import_apps_submodule ''page_type_plugins'' (broken_app # []) (new_world [broken_app])
        = (if py_in ''page_type_plugins'' ''No module named payments''
           then import_apps_submodule ''page_type_plugins'' [] v2
           else (Some (ImportError ''No module named payments''), v2))"
    by (rule mp)
  then have r3: "fst (import_apps_submodule ''page_type_plugins'' [broken_app] (new_world [broken_app]))
       = Some (ImportError ''No module named payments'')"
    by simp
  from h have h1: "app_name admin_app @ ''.'' @ ''page_type_plugins'' \<notin> set (sys_modules (new_world [admin_app]))"
    and h2: "map_of (submodules admin_app) ''page_type_plugins'' = None"
    by (rule conjunct1, rule conjunct2)
  from h1 h2 r1 hf r2 bf r3 show ?thesis by (intro conjI)
qed

section \<open>The assertion of the two model accessors\<close>

lemma accessor_plugin_unfold:
  assumes "import_plugins w = (r, w1)"
  shows "get_plugin_by_model w mc =
     (case r of
        Some e \<Rightarrow> (Inl e, w1)
      | None \<Rightarrow>
          if \<not> issubclass (model_bases mc) ''UrlNode'' then (Inl (AssertionError []), w1)
          else case plugin_for_model (pool w1) mc of
            None \<Rightarrow>
              (Inl (PageTypeNotFound
                 (''No plugin found for model '' @ [CHR 0x27] @ model_name mc @ [CHR 0x27] @ ''.'')), w1)
          | Some name \<Rightarrow>
              (case map_of (plugins (pool w1)) name of
                 None \<Rightarrow> (Inl (KeyError name), w1)
               | Some inst \<Rightarrow> (Inr inst, w1)))"
  using assms by (cases r) (simp_all add: get_plugin_by_model_def)

lemma accessor_admin_unfold:
  assumes "import_plugins w = (r, w1)"
  shows "get_model_admin w mc =
     (case r of
        Some e \<Rightarrow> (Inl e, w1)
      | None \<Rightarrow>
          if \<not> issubclass (model_bases mc) ''UrlNode'' then (Inl (AssertionError []), w1)
          else case admin_site (pool w1) mc of
            None \<Rightarrow>
              (Inl (PageTypeNotFound
                 (''No ModelAdmin found for model '' @ [CHR 0x27] @ model_name mc @ [CHR 0x27] @ ''.'')), w1)
          | Some a \<Rightarrow> (Inr a, w1))"
  using assms by (cases r) (simp_all add: get_model_admin_def)

lemma accessor_not_urlnode:
  assumes n: "\<not> issubclass (model_bases mc) ''UrlNode''"
  shows "get_plugin_by_model w mc
       = (case fst (import_plugins w) of None \<Rightarrow> Inl (AssertionError []) | Some e \<Rightarrow> Inl e,
          snd (import_plugins w))"
    and "get_model_admin w mc
       = (case fst (import_plugins w) of None \<Rightarrow> Inl (AssertionError []) | Some e \<Rightarrow> Inl e,
          snd (import_plugins w))"
proof -
  obtain r w1 where i: "import_plugins w = (r, w1)" by (cases "import_plugins w")
  from n show "get_plugin_by_model w mc
       = (case fst (import_plugins w) of None \<Rightarrow> Inl (AssertionError []) | Some e \<Rightarrow> Inl e,
          snd (import_plugins w))"
    unfolding accessor_plugin_unfold [OF i] i by (cases r) simp_all
  from n show "get_model_admin w mc
       = (case fst (import_plugins w) of None \<Rightarrow> Inl (AssertionError []) | Some e \<Rightarrow> Inl e,
          snd (import_plugins w))"
    unfolding accessor_admin_unfold [OF i] i by (cases r) simp_all
qed

lemma plugin_not_found_only:
  assumes f: "fst (get_plugin_by_model w mc) = Inl (PageTypeNotFound msg)"
  shows "issubclass (model_bases mc) ''UrlNode'' \<and> fst (import_plugins w) = None
     \<and> plugin_for_model (pool (snd (import_plugins w))) mc = None"
proof -
  obtain r w1 where i: "import_plugins w = (r, w1)" by (cases "import_plugins w")
  from import_plugins_no_not_found [of w msg] i have nf: "r \<noteq> Some (PageTypeNotFound msg)" by simp
  show ?thesis
  proof (cases r)
    case (Some e)
    with f nf show ?thesis unfolding accessor_plugin_unfold [OF i] by simp
  next
    case None
    with f have g: "fst (if \<not> issubclass (model_bases mc) ''UrlNode'' then (Inl (AssertionError []), w1)
          else case plugin_for_model (pool w1) mc of
            None \<Rightarrow>
              (Inl (PageTypeNotFound
                 (''No plugin found for model '' @ [CHR 0x27] @ model_name mc @ [CHR 0x27] @ ''.'')), w1)
          | Some name \<Rightarrow>
              (case map_of (plugins (pool w1)) name of
                 None \<Rightarrow> (Inl (KeyError name), w1)
               | Some inst \<Rightarrow> (Inr inst, w1))) = Inl (PageTypeNotFound msg)"
      unfolding accessor_plugin_unfold [OF i] by simp
    have s: "issubclass (model_bases mc) ''UrlNode''"
    proof (rule ccontr)
      assume "\<not> issubclass (model_bases mc) ''UrlNode''"
      with g show False by simp
    qed
    have p: "plugin_for_model (pool w1) mc = None"
    proof (cases "plugin_for_model (pool w1) mc")
      case None
      then show ?thesis .
    next
      case (Some name)
      with g s show ?thesis by (cases "map_of (plugins (pool w1)) name") simp_all
    qed
    from s p None i show ?thesis by simp
  qed
qed

lemma admin_not_found_only:
  assumes f: "fst (get_model_admin w mc) = Inl (PageTypeNotFound msg)"
  shows "issubclass (model_bases mc) ''UrlNode'' \<and> fst (import_plugins w) = None
     \<and> admin_site (pool (snd (import_plugins w))) mc = None"
proof -
  obtain r w1 where i: "import_plugins w = (r, w1)" by (cases "import_plugins w")
  from import_plugins_no_not_found [of w msg] i have nf: "r \<noteq> Some (PageTypeNotFound msg)" by simp
  show ?thesis
  proof (cases r)
    case (Some e)
    with f nf show ?thesis unfolding accessor_admin_unfold [OF i] by simp
  next
    case None
    with f have g: "fst (if \<not> issubclass (model_bases mc) ''UrlNode'' then (Inl (AssertionError []), w1)
          else case admin_site (pool w1) mc of
            None \<Rightarrow>
              (Inl (PageTypeNotFound
                 (''No ModelAdmin found for model '' @ [CHR 0x27] @ model_name mc @ [CHR 0x27] @ ''.'')), w1)
          | Some a \<Rightarrow> (Inr a, w1)) = Inl (PageTypeNotFound msg)"
      unfolding accessor_admin_unfold [OF i] by simp
    have s: "issubclass (model_bases mc) ''UrlNode''"
    proof (rule ccontr)
      assume "\<not> issubclass (model_bases mc) ''UrlNode''"
      with g show False by simp
    qed
    have p: "admin_site (pool w1) mc = None"
    proof (cases "admin_site (pool w1) mc")
      case None
      then show ?thesis .
    next
      case (Some a)
      with g s show ?thesis by simp
    qed
    from s p None i show ?thesis by simp
  qed
qed

lemma not_found_raised:
  assumes s: "issubclass (model_bases mc) ''UrlNode''" and n: "fst (import_plugins w) = None"
  shows "plugin_for_model (pool (snd (import_plugins w))) mc = None \<Longrightarrow>
       fst (get_plugin_by_model w mc) = Inl (PageTypeNotFound
         (''No plugin found for model '' @ [CHR 0x27] @ model_name mc @ [CHR 0x27] @ ''.''))"
    and "admin_site (pool (snd (import_plugins w))) mc = None \<Longrightarrow>
       fst (get_model_admin w mc) = Inl (PageTypeNotFound
         (''No ModelAdmin found for model '' @ [CHR 0x27] @ model_name mc @ [CHR 0x27] @ ''.''))"
proof -
  obtain r w1 where i: "import_plugins w = (r, w1)" by (cases "import_plugins w")
  from n i have r: "r = None" by simp
  {
    assume "plugin_for_model (pool (snd (import_plugins w))) mc = None"
    with i have "plugin_for_model (pool w1) mc = None" by simp
    with s r show "fst (get_plugin_by_model w mc) = Inl (PageTypeNotFound
         (''No plugin found for model '' @ [CHR 0x27] @ model_name mc @ [CHR 0x27] @ ''.''))"
      unfolding accessor_plugin_unfold [OF i] by simp
  }
  {
    assume "admin_site (pool (snd (import_plugins w))) mc = None"
    with i have "admin_site (pool w1) mc = None" by simp
    with s r show "fst (get_model_admin w mc) = Inl (PageTypeNotFound
         (''No ModelAdmin found for model '' @ [CHR 0x27] @ model_name mc @ [CHR 0x27] @ ''.''))"
      unfolding accessor_admin_unfold [OF i] by simp
  }
qed

lemma session_not_urlnode: "\<not> issubclass (model_bases Session) ''UrlNode''"
  by (simp add: Session_def issubclass_def)

lemma broken_scan: "fst (import_plugins broken_world) = Some (ImportError ''No module named payments'')"
  by (simp add: world_defs scan_defs)

lemma good_scan: "fst (import_plugins good_world) = None"
  using good_import by (rule conjunct1)

lemma admin_only_scan:
  "fst (import_plugins (new_world [admin_app])) = None"
  "plugin_for_model (pool (snd (import_plugins (new_world [admin_app])))) FluentPage = None"
  "admin_site (pool (snd (import_plugins (new_world [admin_app])))) FluentPage = None"
  by (simp_all add: world_defs scan_defs)

text \<open>
  With an application whose \<open>page_type_plugins\<close> module is broken, the two accessors do
  not reach their assertion: called with a class that does not derive from \<open>UrlNode\<close>,
  they end with the \<open>ImportError\<close> of the scan.
\<close>

theorem assertion_preempted_counterexample:
  "issubclass (model_bases Session) ''UrlNode'' = False
   \<and> fst (get_plugin_by_model broken_world Session) = Inl (ImportError ''No module named payments'')
   \<and> fst (get_model_admin broken_world Session) = Inl (ImportError ''No module named payments'')"
proof -
  have 1: "issubclass (model_bases Session) ''UrlNode'' = False"
    using session_not_urlnode by simp
  have 2: "fst (get_plugin_by_model broken_world Session) = Inl (ImportError ''No module named payments'')"
    unfolding accessor_not_urlnode(1) [OF session_not_urlnode] by (simp add: broken_scan)
  have 3: "fst (get_model_admin broken_world Session) = Inl (ImportError ''No module named payments'')"
    unfolding accessor_not_urlnode(2) [OF session_not_urlnode] by (simp add: broken_scan)
  show ?thesis by (intro conjI 1 2 3)
qed

text \<open>
  Claim C9, as the code has it. Both accessors run the discovery first, then the
  assertion, then the lookup. Called with a class that does not derive from \<open>UrlNode\<close>,
  they never return a value and never raise \<open>PageTypeNotFound\<close>, whatever the registry
  holds: when the discovery does not raise (it completed now or before) they fail
  with the assertion failure, and when the scan raises they fail with the exception of
  the scan. \<open>PageTypeNotFound\<close> is raised only for a class that derives from \<open>UrlNode\<close>,
  after a discovery that did not raise, when the class has no entry in the model
  mapping (for \<open>get_plugin_by_model\<close>) or in the admin registry (for \<open>get_model_admin\<close>);
  and in that case it is raised.
\<close>

theorem accessor_assertion_first:
  "(\<not> issubclass (model_bases mc) ''UrlNode'' \<longrightarrow>
      (fst (import_plugins w) = None \<longrightarrow>
         get_plugin_by_model w mc = (Inl (AssertionError []), snd (import_plugins w))
         \<and> get_model_admin w mc = (Inl (AssertionError []), snd (import_plugins w)))
      \<and> (fst (import_plugins w) = Some e \<longrightarrow>
           get_plugin_by_model w mc = (Inl e, snd (import_plugins w))
           \<and> get_model_admin w mc = (Inl e, snd (import_plugins w)))
      \<and> fst (get_plugin_by_model w mc) \<noteq> Inl (PageTypeNotFound msg)
      \<and> fst (get_model_admin w mc) \<noteq> Inl (PageTypeNotFound msg)
      \<and> fst (get_plugin_by_model w mc) \<noteq> Inr p
      \<and> fst (get_model_admin w mc) \<noteq> Inr a)
   \<and> (fst (get_plugin_by_model w mc) = Inl (PageTypeNotFound msg) \<longrightarrow>
        issubclass (model_bases mc) ''UrlNode'' \<and> fst (import_plugins w) = None
        \<and> plugin_for_model (pool (snd (import_plugins w))) mc = None)
   \<and> (fst (get_model_admin w mc) = Inl (PageTypeNotFound msg) \<longrightarrow>
        issubclass (model_bases mc) ''UrlNode'' \<and> fst (import_plugins w) = None
        \<and> admin_site (pool (snd (import_plugins w))) mc = None)
   \<and> (issubclass (model_bases mc) ''UrlNode'' \<and> fst (import_plugins w) = None \<longrightarrow>
        (plugin_for_model (pool (snd (import_plugins w))) mc = None \<longrightarrow>
           fst (get_plugin_by_model w mc) = Inl (PageTypeNotFound
             (''No plugin found for model '' @ [CHR 0x27] @ model_name mc @ [CHR 0x27] @ ''.'')))
        \<and> (admin_site (pool (snd (import_plugins w))) mc = None \<longrightarrow>
           fst (get_model_admin w mc) = Inl (PageTypeNotFound
             (''No ModelAdmin found for model '' @ [CHR 0x27] @ model_name mc @ [CHR 0x27] @ ''.''))))"
proof -
  have c1: "\<not> issubclass (model_bases mc) ''UrlNode'' \<longrightarrow>
      (fst (import_plugins w) = None \<longrightarrow>
         get_plugin_by_model w mc = (Inl (AssertionError []), snd (import_plugins w))
         \<and> get_model_admin w mc = (Inl (AssertionError []), snd (import_plugins w)))
      \<and> (fst (import_plugins w) = Some e \<longrightarrow>
           get_plugin_by_model w mc = (Inl e, snd (import_plugins w))
           \<and> get_model_admin w mc = (Inl e, snd (import_plugins w)))
      \<and> fst (get_plugin_by_model w mc) \<noteq> Inl (PageTypeNotFound msg)
      \<and> fst (get_model_admin w mc) \<noteq> Inl (PageTypeNotFound msg)
      \<and> fst (get_plugin_by_model w mc) \<noteq> Inr p
      \<and> fst (get_model_admin w mc) \<noteq> Inr a"
  proof
    assume n: "\<not> issubclass (model_bases mc) ''UrlNode''"
    note gp = accessor_not_urlnode(1) [OF n, of w]
    note ga = accessor_not_urlnode(2) [OF n, of w]
    have a1: "fst (import_plugins w) = None \<longrightarrow>
         get_plugin_by_model w mc = (Inl (AssertionError []), snd (import_plugins w))
         \<and> get_model_admin w mc = (Inl (AssertionError []), snd (import_plugins w))"
      unfolding gp ga by simp
    have a2: "fst (import_plugins w) = Some e \<longrightarrow>
           get_plugin_by_model w mc = (Inl e, snd (import_plugins w))
           \<and> get_model_admin w mc = (Inl e, snd (import_plugins w))"
      unfolding gp ga by simp
    have a3: "fst (get_plugin_by_model w mc) \<noteq> Inl (PageTypeNotFound msg)"
    proof
      assume f: "fst (get_plugin_by_model w mc) = Inl (PageTypeNotFound msg)"
      from plugin_not_found_only [OF f] have "issubclass (model_bases mc) ''UrlNode''"
        by (rule conjunct1)
      from n this show False by (rule notE)
    qed
    have a4: "fst (get_model_admin w mc) \<noteq> Inl (PageTypeNotFound msg)"
    proof
      assume f: "fst (get_model_admin w mc) = Inl (PageTypeNotFound msg)"
      from admin_not_found_only [OF f] have "issubclass (model_bases mc) ''UrlNode''"
        by (rule conjunct1)
      from n this show False by (rule notE)
    qed
    have a5: "fst (get_plugin_by_model w mc) \<noteq> Inr p"
      unfolding gp by (cases "fst (import_plugins w)") simp_all
    have a6: "fst (get_model_admin w mc) \<noteq> Inr a"
      unfolding ga by (cases "fst (import_plugins w)") simp_all
    show "(fst (import_plugins w) = None \<longrightarrow>
         get_plugin_by_model w mc = (Inl (AssertionError []), snd (import_plugins w))
         \<and> get_model_admin w mc = (Inl (AssertionError []), snd (import_plugins w)))
      \<and> (fst (import_plugins w) = Some e \<longrightarrow>
           get_plugin_by_model w mc = (Inl e, snd (import_plugins w))
           \<and> get_model_admin w mc = (Inl e, snd (import_plugins w)))
      \<and> fst (get_plugin_by_model w mc) \<noteq> Inl (PageTypeNotFound msg)
      \<and> fst (get_model_admin w mc) \<noteq> Inl (PageTypeNotFound msg)
      \<and> fst (get_plugin_by_model w mc) \<noteq> Inr p
      \<and> fst (get_model_admin w mc) \<noteq> Inr a"
      by (intro conjI a1 a2 a3 a4 a5 a6)
  qed
  have c2: "fst (get_plugin_by_model w mc) = Inl (PageTypeNotFound msg) \<longrightarrow>
        issubclass (model_bases mc) ''UrlNode'' \<and> fst (import_plugins w) = None
        \<and> plugin_for_model (pool (snd (import_plugins w))) mc = None"
    by (intro impI) (rule plugin_not_found_only)
  have c3: "fst (get_model_admin w mc) = Inl (PageTypeNotFound msg) \<longrightarrow>
        issubclass (model_bases mc) ''UrlNode'' \<and> fst (import_plugins w) = None
        \<and> admin_site (pool (snd (import_plugins w))) mc = None"
    by (intro impI) (rule admin_not_found_only)
  have c4: "issubclass (model_bases mc) ''UrlNode'' \<and> fst (import_plugins w) = None \<longrightarrow>
        (plugin_for_model (pool (snd (import_plugins w))) mc = None \<longrightarrow>
           fst (get_plugin_by_model w mc) = Inl (PageTypeNotFound
             (''No plugin found for model '' @ [CHR 0x27] @ model_name mc @ [CHR 0x27] @ ''.'')))
        \<and> (admin_site (pool (snd (import_plugins w))) mc = None \<longrightarrow>
           fst (get_model_admin w mc) = Inl (PageTypeNotFound
             (''No ModelAdmin found for model '' @ [CHR 0x27] @ model_name mc @ [CHR 0x27] @ ''.'')))"
  proof (intro impI conjI)
    assume h: "issubclass (model_bases mc) ''UrlNode'' \<and> fst (import_plugins w) = None"
    then have s: "issubclass (model_bases mc) ''UrlNode''" and n: "fst (import_plugins w) = None"
      by (rule conjunct1, rule conjunct2)
    {
      assume "plugin_for_model (pool (snd (import_plugins w))) mc = None"
      with s n show "fst (get_plugin_by_model w mc) = Inl (PageTypeNotFound
             (''No plugin found for model '' @ [CHR 0x27] @ model_name mc @ [CHR 0x27] @ ''.''))"
        by (rule not_found_raised(1))
    }
    {
      assume "admin_site (pool (snd (import_plugins w))) mc = None"
      with s n show "fst (get_model_admin w mc) = Inl (PageTypeNotFound
             (''No ModelAdmin found for model '' @ [CHR 0x27] @ model_name mc @ [CHR 0x27] @ ''.''))"
        by (rule not_found_raised(2))
    }
  qed
  show ?thesis by (intro conjI c1 c2 c3 c4)
qed

theorem accessor_assertion_first_witness:
  "\<not> issubclass (model_bases Session) ''UrlNode''
   \<and> fst (import_plugins good_world) = None
   \<and> fst (get_plugin_by_model good_world Session) = Inl (AssertionError [])
   \<and> fst (get_model_admin good_world Session) = Inl (AssertionError [])
   \<and> fst (import_plugins broken_world) = Some (ImportError ''No module named payments'')
   \<and> fst (get_plugin_by_model broken_world Session) = Inl (ImportError ''No module named payments'')
   \<and> fst (get_model_admin broken_world Session) = Inl (ImportError ''No module named payments'')
   \<and> issubclass (model_bases FluentPage) ''UrlNode''
   \<and> fst (import_plugins (new_world [admin_app])) = None
   \<and> plugin_for_model (pool (snd (import_plugins (new_world [admin_app])))) FluentPage = None
   \<and> admin_site (pool (snd (import_plugins (new_world [admin_app])))) FluentPage = None
   \<and> fst (get_plugin_by_model (new_world [admin_app]) FluentPage)
       = Inl (PageTypeNotFound (''No plugin found for model '' @ [CHR 0x27] @ ''FluentPage'' @ [CHR 0x27] @ ''.''))
   \<and> fst (get_model_admin (new_world [admin_app]) FluentPage)
       = Inl (PageTypeNotFound (''No ModelAdmin found for model '' @ [CHR 0x27] @ ''FluentPage'' @ [CHR 0x27] @ ''.''))"
proof -
  note n = session_not_urlnode
  note t1 = accessor_assertion_first [where mc = Session and w = good_world,
      THEN conjunct1, THEN mp, OF n, THEN conjunct1, THEN mp, OF good_scan]
  from t1 have g1: "fst (get_plugin_by_model good_world Session) = Inl (AssertionError [])"
    by simp
  from t1 have g2: "fst (get_model_admin good_world Session) = Inl (AssertionError [])"
    by simp
  note t2 = accessor_assertion_first [where mc = Session and w = broken_world
      and e = "ImportError ''No module named payments''",
      THEN conjunct1, THEN mp, OF n, THEN conjunct2, THEN conjunct1, THEN mp, OF broken_scan]
  from t2 have b1: "fst (get_plugin_by_model broken_world Session)
      = Inl (ImportError ''No module named payments'')"
    by simp
  from t2 have b2: "fst (get_model_admin broken_world Session)
      = Inl (ImportError ''No module named payments'')"
    by simp
  have u: "issubclass (model_bases FluentPage) ''UrlNode''"
    by (simp add: FluentPage_def issubclass_def)
  from u admin_only_scan(1)
  have h: "issubclass (model_bases FluentPage) ''UrlNode''
      \<and> fst (import_plugins (new_world [admin_app])) = None"
    by (rule conjI)
  note t3 = accessor_assertion_first [where mc = FluentPage and w = "new_world [admin_app]",
      THEN conjunct2, THEN conjunct2, THEN conjunct2, THEN mp, OF h]
  from t3 [THEN conjunct1, THEN mp, OF admin_only_scan(2)]
  have f1: "fst (get_plugin_by_model (new_world [admin_app]) FluentPage)
       = Inl (PageTypeNotFound (''No plugin found for model '' @ [CHR 0x27] @ ''FluentPage'' @ [CHR 0x27] @ ''.''))"
    by (simp add: FluentPage_def)
  from t3 [THEN conjunct2, THEN mp, OF admin_only_scan(3)]
  have f2: "fst (get_model_admin (new_world [admin_app]) FluentPage)
       = Inl (PageTypeNotFound (''No ModelAdmin found for model '' @ [CHR 0x27] @ ''FluentPage'' @ [CHR 0x27] @ ''.''))"
    by (simp add: FluentPage_def)
  from n good_scan g1 g2 broken_scan b1 b2 u admin_only_scan(1) admin_only_scan(2)
    admin_only_scan(3) f1 f2
  show ?thesis by (intro conjI)
qed

end
